theory Spec2Isabelle
  imports Complex_Main "HOL-Library.Sublist"
begin

section \<open>Values exchanged with the renderer\<close>

text \<open>
  JavaScript numbers: a finite double, written as the real number it denotes, or one of
  the three non-finite values. The two signed zeros are one value (both are falsy). The
  arithmetic on doubles is not defined here: where the source computes with \<open>/\<close>,
  \<open>*\<close> and \<open>Math.round\<close>, the operations are parameters.
\<close>

datatype jsnum = Fin real | NaN | PosInf | NegInf

text \<open>A property value of a GeoJSON feature or a cell of a spreadsheet row.\<close>

datatype jsval = Undefined | Null | Bool bool | Num jsnum | Str string

type_synonym props = "(string \<times> jsval) list"

text \<open>\<open>obj.key\<close> on a plain object: \<open>undefined\<close> when the key is missing.\<close>

definition getProp :: "props \<Rightarrow> string \<Rightarrow> jsval" where
  "getProp obj k = (case map_of obj k of None \<Rightarrow> Undefined | Some v \<Rightarrow> v)"

fun truthy_num :: "jsnum \<Rightarrow> bool" where
  "truthy_num (Fin x) = (x \<noteq> 0)"
| "truthy_num NaN = False"
| "truthy_num PosInf = True"
| "truthy_num NegInf = True"

text \<open>The truthiness test of \<open>if (v)\<close>, \<open>v ? a : b\<close> and \<open>a && b\<close>.\<close>

fun truthy :: "jsval \<Rightarrow> bool" where
  "truthy Undefined = False"
| "truthy Null = False"
| "truthy (Bool b) = b"
| "truthy (Num n) = truthy_num n"
| "truthy (Str s) = (s \<noteq> [])"

text \<open>
  A renderer expression is a JSON array tree: \<open>['in', ['get', 'year'], ['literal', years]]\<close>
  is \<open>A [S ''in'', A [S ''get'', S ''year''], A [S ''literal'', A (map S years)]]\<close>.
\<close>

datatype jexpr = S string | N real | A "jexpr list"

record map_feature =
  properties :: props
  geometry :: "(real \<times> real) list"

text \<open>The instructions the component issues to the renderer, in the order issued.\<close>

datatype command =
    SetFilter string "jexpr option"
  | SetLayoutProperty string string string
  | SetPaintProperty string string jexpr
  | FitBounds map_feature nat
  | FlyTo real real real

record renderer =
  layers :: "string list"
  issued :: "command list"

definition getLayer :: "renderer \<Rightarrow> string \<Rightarrow> bool" where
  "getLayer m lid = (lid \<in> set (layers m))"

section \<open>Component state\<close>

text \<open>
  The callbacks passed to \<open>setTimeout\<close>: the re-sample of \<open>applyFilter\<close> and the first
  sample scheduled by the load handler.
\<close>

datatype task = SampleCount | InitialSample

record timer =
  due :: nat
  job :: task

text \<open>
  The \<open>useState\<close> cells of \<open>ProjectMap\<close>, the \<open>map\<close> ref (\<open>None\<close> while
  \<open>map.current\<close> is null), and the timer queue of the page with its clock in
  milliseconds.
\<close>

record app_state =
  view :: string
  panelOpen :: bool
  selectedYears :: "string list"
  selectedStatus :: "string list"
  selectedTypes :: "string list"
  activeState :: "string option"
  stateData :: "props option"
  pointCount :: "nat option"
  mapReady :: bool
  mapRef :: "renderer option"
  now :: nat
  timers :: "timer list"

definition initialState :: app_state where
  "initialState = \<lparr> view = ''performance'', panelOpen = False, selectedYears = [],
     selectedStatus = [], selectedTypes = [], activeState = None, stateData = None,
     pointCount = None, mapReady = False, mapRef = None, now = 0, timers = [] \<rparr>"

definition issue :: "command \<Rightarrow> app_state \<Rightarrow> app_state" where
  "issue c st = (case mapRef st of None \<Rightarrow> st
     | Some m \<Rightarrow> st\<lparr>mapRef := Some (m\<lparr>issued := issued m @ [c]\<rparr>)\<rparr>)"

text \<open>\<open>setTimeout(cb, delay)\<close>: the callback is queued, due \<open>delay\<close> ms from now.\<close>

definition setTimeout :: "task \<Rightarrow> nat \<Rightarrow> app_state \<Rightarrow> app_state" where
  "setTimeout cb delay st = st\<lparr>timers := timers st @ [\<lparr>due = now st + delay, job = cb\<rparr>]\<rparr>"

section \<open>applyFilter\<close>

text \<open>
  Lines 111 to 115 of \<open>applyFilter\<close>: the \<open>conditions\<close> array. \<open>if (stateName)\<close> is a
  truthiness test, false for \<open>null\<close> and for the empty string.
\<close>

definition conditions ::
  "string list \<Rightarrow> string list \<Rightarrow> string list \<Rightarrow> string option \<Rightarrow> jexpr list" where
  "conditions years statuses types stateName =
     (case stateName of
        None \<Rightarrow> []
      | Some n \<Rightarrow> if n \<noteq> [] then [A [S ''=='', A [S ''get'', S ''state''], S n]] else [])
     @ (if length years \<noteq> 0
        then [A [S ''in'', A [S ''get'', S ''year''], A [S ''literal'', A (map S years)]]]
        else [])
     @ (if length statuses \<noteq> 0
        then [A [S ''in'', A [S ''get'', S ''status''], A [S ''literal'', A (map S statuses)]]]
        else [])
     @ (if length types \<noteq> 0
        then [A [S ''in'', A [S ''get'', S ''type''], A [S ''literal'', A (map S types)]]]
        else [])"

text \<open>Lines 116 to 118: \<open>null\<close>, the bare condition, or \<open>['all', ...conditions]\<close>.\<close>

definition mkFilter :: "jexpr list \<Rightarrow> jexpr option" where
  "mkFilter conds =
     (if length conds = 0 then None
      else if length conds = 1 then Some (conds ! 0)
      else Some (A (S ''all'' # conds)))"

definition buildFilter ::
  "string list \<Rightarrow> string list \<Rightarrow> string list \<Rightarrow> string option \<Rightarrow> jexpr option" where
  "buildFilter years statuses types stateName =
     mkFilter (conditions years statuses types stateName)"

definition applyFilter ::
  "string list \<Rightarrow> string list \<Rightarrow> string list \<Rightarrow> string option \<Rightarrow> app_state \<Rightarrow> app_state" where
  "applyFilter years statuses types stateName st =
     (case mapRef st of
        None \<Rightarrow> st
      | Some m \<Rightarrow>
          if \<not> getLayer m ''project-points'' then st
          else setTimeout SampleCount 300
                 (issue (SetFilter ''project-points''
                           (buildFilter years statuses types stateName)) st))"

section \<open>View switch and filter toggles\<close>

text \<open>The two \<open>circle-color\<close> expressions that \<open>switchView\<close> hands to the renderer.\<close>

definition statusColorExpr :: jexpr where
  "statusColorExpr = A [S ''match'', A [S ''get'', S ''status''],
     S ''COMPLETED'', S ''#2ecc71'',
     S ''ONGOING'', S ''#f39c12'',
     S ''YET TO MOBILIZE'', S ''#E63946'',
     S ''#333333'']"

definition techColorExpr :: jexpr where
  "techColorExpr = A [S ''case'',
     A [S ''all'', A [S ''in'', S ''SOLAR STREET LIGHT'', A [S ''get'', S ''type'']],
                  A [S ''!'', A [S ''in'', S ''MINI GRID'', A [S ''get'', S ''type'']]]],
       S ''#f39c12'',
     A [S ''in'', S ''MINI GRID'', A [S ''get'', S ''type'']], S ''#3498db'',
     A [S ''in'', S ''SOLAR HOME'', A [S ''get'', S ''type'']], S ''#9b59b6'',
     A [S ''in'', S ''GRID'', A [S ''get'', S ''type'']], S ''#E63946'',
     S ''#95a5a6'']"

definition switchView :: "string \<Rightarrow> app_state \<Rightarrow> app_state" where
  "switchView newView st =
     (case mapRef st of
        None \<Rightarrow> st
      | Some m \<Rightarrow>
          if \<not> mapReady st then st
          else
            let isCov = (newView = ''coverage'');
                isPerf = (newView = ''performance'');
                isTech = (newView = ''technology'');
                st1 = st\<lparr>view := newView, activeState := None, stateData := None\<rparr>;
                st2 = issue (SetLayoutProperty ''project-points'' ''visibility''
                               (if isCov then ''none'' else ''visible'')) st1;
                st3 = issue (SetLayoutProperty ''state-choropleth'' ''visibility''
                               (if isCov then ''visible'' else ''none'')) st2;
                st4 = issue (SetPaintProperty ''state-fill'' ''fill-opacity''
                               (N (if isCov then 0 else 0.08))) st3;
                st5 = (if isPerf
                       then issue (SetPaintProperty ''project-points'' ''circle-color''
                                     statusColorExpr) st4
                       else st4)
            in if isTech
               then issue (SetPaintProperty ''project-points'' ''circle-color''
                             techColorExpr) st5
               else st5)"

text \<open>
  \<open>sel.includes(x) ? sel.filter(v => v !== x) : [...sel, x]\<close>, the expression the
  three toggles share.
\<close>

definition toggle :: "string \<Rightarrow> string list \<Rightarrow> string list" where
  "toggle x sel = (if x \<in> set sel then filter (\<lambda>v. v \<noteq> x) sel else sel @ [x])"

text \<open>
  The toggles are re-created at every render and read the values of that render; the
  argument \<open>st\<close> is the state of the render in which the chip was clicked. They call
  the setter and \<open>applyFilter\<close> without testing \<open>mapReady\<close>.
\<close>

definition toggleYear :: "string \<Rightarrow> app_state \<Rightarrow> app_state" where
  "toggleYear y st =
     (let next = toggle y (selectedYears st)
      in applyFilter next (selectedStatus st) (selectedTypes st) (activeState st)
           (st\<lparr>selectedYears := next\<rparr>))"

definition toggleStatus :: "string \<Rightarrow> app_state \<Rightarrow> app_state" where
  "toggleStatus s st =
     (let next = toggle s (selectedStatus st)
      in applyFilter (selectedYears st) next (selectedTypes st) (activeState st)
           (st\<lparr>selectedStatus := next\<rparr>))"

definition toggleType :: "string \<Rightarrow> app_state \<Rightarrow> app_state" where
  "toggleType t st =
     (let next = toggle t (selectedTypes st)
      in applyFilter (selectedYears st) (selectedStatus st) next (activeState st)
           (st\<lparr>selectedTypes := next\<rparr>))"

text \<open>\<open>map.current?.flyTo(...)\<close> is skipped while \<open>map.current\<close> is null.\<close>

definition clearAll :: "app_state \<Rightarrow> app_state" where
  "clearAll st =
     issue (FlyTo 8.6753 9.0820 5.5)
       (applyFilter [] [] [] None
          (st\<lparr>selectedYears := [], selectedStatus := [], selectedTypes := [],
              activeState := None, stateData := None\<rparr>))"

section \<open>Map initialisation and timers\<close>

text \<open>The effect that creates the map, once: \<open>if (map.current) return\<close>.\<close>

definition initMap :: "app_state \<Rightarrow> app_state" where
  "initMap st = (case mapRef st of
       Some m \<Rightarrow> st
     | None \<Rightarrow> st\<lparr>mapRef := Some \<lparr>layers = [], issued = []\<rparr>\<rparr>)"

text \<open>
  The \<open>load\<close> handler: the five layers are added, the first sample is scheduled 500 ms
  later, and the hover and click handlers are registered (once).
\<close>

definition onLoad :: "app_state \<Rightarrow> app_state" where
  "onLoad st = (case mapRef st of
       None \<Rightarrow> st
     | Some m \<Rightarrow>
         setTimeout InitialSample 500
           (st\<lparr>mapRef := Some (m\<lparr>layers := layers m @
              [''state-choropleth'', ''state-fill'', ''state-fill-hover'',
               ''state-border'', ''project-points'']\<rparr>)\<rparr>))"

text \<open>
  A timer callback runs with \<open>n\<close>, the number of features that
  \<open>queryRenderedFeatures\<close> returns at that moment (the renderer's answer, an input).
\<close>

fun runTask :: "task \<Rightarrow> nat \<Rightarrow> app_state \<Rightarrow> app_state" where
  "runTask SampleCount n st = st\<lparr>pointCount := Some n\<rparr>"
| "runTask InitialSample n st = st\<lparr>pointCount := Some n, mapReady := True\<rparr>"

text \<open>
  The timer that the page runs next: the one due earliest, and among timers due at the
  same time the one registered first.
\<close>

fun nextTimer :: "timer list \<Rightarrow> timer option" where
  "nextTimer [] = None"
| "nextTimer (t # ts) =
     (case nextTimer ts of
        None \<Rightarrow> Some t
      | Some u \<Rightarrow> if due u < due t then Some u else Some t)"

text \<open>A timer never runs before it is due; it may run late.\<close>

definition fireNext :: "nat \<Rightarrow> app_state \<Rightarrow> app_state" where
  "fireNext n st =
     (case nextTimer (timers st) of
        None \<Rightarrow> st
      | Some t \<Rightarrow> runTask (job t) n
          (st\<lparr>timers := remove1 t (timers st), now := max (now st) (due t)\<rparr>))"

definition drain :: "nat list \<Rightarrow> app_state \<Rightarrow> app_state" where
  "drain ns st = foldl (\<lambda>s n. fireNext n s) st ns"

text \<open>Time passing between two events.\<close>

definition tick :: "nat \<Rightarrow> app_state \<Rightarrow> app_state" where
  "tick d st = st\<lparr>now := now st + d\<rparr>"

text \<open>
  A burst of \<open>applyFilter\<close> calls, each \<open>d\<close> ms after the one before, with no timer
  running in between.
\<close>

type_synonym filter_args = "string list \<times> string list \<times> string list \<times> string option"

fun burst :: "(nat \<times> filter_args) list \<Rightarrow> app_state \<Rightarrow> app_state" where
  "burst [] st = st"
| "burst ((d, (ys, ss, ts, r)) # cs) st = burst cs (applyFilter ys ss ts r (tick d st))"

section \<open>Click handlers\<close>

datatype js_error = TypeError

text \<open>
  What a handler leaves behind: the exception it threw, if any, and the state, which
  keeps the updates made before the throw.
\<close>

type_synonym outcome = "js_error option \<times> app_state"

text \<open>
  \<open>toUpperCase\<close>. A string is a list of 8-bit characters. On ASCII text (every
  character below 128) upper-casing maps the letters a to z and keeps all else. Text
  with other characters is upper-cased by the language's full case mapping, which may
  change any character and the length; it is the parameter \<open>ext\<close>.
\<close>

fun isAscii :: "char \<Rightarrow> bool" where
  "isAscii (Char b0 b1 b2 b3 b4 b5 b6 b7) = (\<not> b7)"

definition upperChar :: "char \<Rightarrow> char" where
  "upperChar c =
     (case map_of (zip ''abcdefghijklmnopqrstuvwxyz'' ''ABCDEFGHIJKLMNOPQRSTUVWXYZ'') c of
        None \<Rightarrow> c
      | Some u \<Rightarrow> u)"

definition toUpperCase :: "(string \<Rightarrow> string) \<Rightarrow> string \<Rightarrow> string" where
  "toUpperCase ext s = (if list_all isAscii s then map upperChar s else ext s)"

text \<open>
  \<open>handleStateClick\<close>, registered for \<open>state-fill\<close> and \<open>state-choropleth\<close>. The
  argument \<open>snap\<close> is the state of the render in which the handler was created and
  registered: the values a closure could have captured. The source reads none of them;
  it obtains \<open>y\<close>, \<open>s\<close> and \<open>t\<close> from the updater callbacks of \<open>setSelectedYears\<close>,
  \<open>setSelectedStatus\<close> and \<open>setSelectedTypes\<close>, which React calls with the values
  current at that moment, and returns them unchanged. The argument \<open>features\<close> is
  \<open>e.features\<close>.
\<close>

definition handleStateClick ::
  "(string \<Rightarrow> string) \<Rightarrow> app_state \<Rightarrow> map_feature list \<Rightarrow> app_state \<Rightarrow> outcome" where
  "handleStateClick ext snap features st =
     (case features of
        [] \<Rightarrow> (Some TypeError, st)
      | feature # rest \<Rightarrow>
          (case getProp (properties feature) ''shapeName'' of
             Str shapeName \<Rightarrow>
               let stateName = toUpperCase ext shapeName;
                   st1 = st\<lparr>activeState := Some stateName,
                            stateData := Some (properties feature)\<rparr>
               in (case mapRef st1 of
                     None \<Rightarrow> (Some TypeError, st1)
                   | Some m \<Rightarrow>
                       let st2 = issue (FitBounds feature 40) st1
                       in (None, applyFilter (selectedYears st2) (selectedStatus st2)
                                   (selectedTypes st2) (Some stateName) st2))
           | other \<Rightarrow> (Some TypeError, st)))"

text \<open>
  The map-wide click handler. \<open>hits\<close> is what \<open>queryRenderedFeatures(e.point, ...)\<close>
  returns for the layers \<open>state-fill\<close>, \<open>state-choropleth\<close> and \<open>project-points\<close>.
\<close>

definition handleMapClick :: "app_state \<Rightarrow> map_feature list \<Rightarrow> app_state \<Rightarrow> outcome" where
  "handleMapClick snap hits st =
     (case mapRef st of
        None \<Rightarrow> (Some TypeError, st)
      | Some m \<Rightarrow>
          if length hits = 0
          then let st1 = st\<lparr>activeState := None, stateData := None\<rparr>
               in (None, applyFilter (selectedYears st1) (selectedStatus st1)
                           (selectedTypes st1) None st1)
          else (None, st))"

text \<open>The selection mutations of the filter panel.\<close>

datatype mutation = ToggleYear string | ToggleStatus string | ToggleType string

fun mutate :: "mutation \<Rightarrow> app_state \<Rightarrow> app_state" where
  "mutate (ToggleYear y) st = toggleYear y st"
| "mutate (ToggleStatus s) st = toggleStatus s st"
| "mutate (ToggleType t) st = toggleType t st"

definition mutations :: "mutation list \<Rightarrow> app_state \<Rightarrow> app_state" where
  "mutations ms st = foldl (\<lambda>s m. mutate m s) st ms"

text \<open>The filter most recently handed to the renderer for the point layer.\<close>

fun lastFilter :: "command list \<Rightarrow> jexpr option option" where
  "lastFilter [] = None"
| "lastFilter (c # cs) =
     (case lastFilter cs of
        Some f \<Rightarrow> Some f
      | None \<Rightarrow> (case c of
                   SetFilter lid f \<Rightarrow> if lid = ''project-points'' then Some f else None
                 | other \<Rightarrow> None))"

definition currentFilter :: "app_state \<Rightarrow> jexpr option option" where
  "currentFilter st = (case mapRef st of None \<Rightarrow> None | Some m \<Rightarrow> lastFilter (issued m))"

text \<open>
  The filter in force on the point layer: none until \<open>setFilter\<close> is first called,
  since the layer is added without one.
\<close>

definition rendererFilter :: "app_state \<Rightarrow> jexpr option" where
  "rendererFilter st = (case currentFilter st of None \<Rightarrow> None | Some f \<Rightarrow> f)"

definition commands :: "app_state \<Rightarrow> command list" where
  "commands st = (case mapRef st of None \<Rightarrow> [] | Some m \<Rightarrow> issued m)"

definition layerReady :: "app_state \<Rightarrow> bool" where
  "layerReady st = (case mapRef st of None \<Rightarrow> False | Some m \<Rightarrow> getLayer m ''project-points'')"

section \<open>The renderer's reading of an expression\<close>

text \<open>
  The operators that occur in the filter and in the Technology paint expression, as the
  renderer's expression language defines them. \<open>None\<close> is an evaluation error (a
  wrong operand type or an operator outside this fragment). \<open>['in', a, b]\<close> is the
  substring test when \<open>b\<close> is a string, the membership test when \<open>b\<close> is a
  literal array, and false when \<open>b\<close> is \<open>null\<close> (a missing property);
  \<open>all\<close> and \<open>case\<close> read their operands from left to right and stop at the
  first that decides.
\<close>

fun literalValue :: "jexpr \<Rightarrow> jsval" where
  "literalValue (S s) = Str s"
| "literalValue (N r) = Num (Fin r)"
| "literalValue (A xs) = Null"

fun evalExpr :: "props \<Rightarrow> jexpr \<Rightarrow> jsval option"
  and evalAll :: "props \<Rightarrow> jexpr list \<Rightarrow> jsval option"
  and evalCase :: "props \<Rightarrow> jexpr list \<Rightarrow> jsval option" where
  "evalExpr p (S s) = Some (Str s)"
| "evalExpr p (N r) = Some (Num (Fin r))"
| "evalExpr p (A []) = None"
| "evalExpr p (A (N r # args)) = None"
| "evalExpr p (A (A x # args)) = None"
| "evalExpr p (A (S f # args)) =
     (if f = ''get'' then
        (case args of
           [S k] \<Rightarrow> Some (case map_of p k of None \<Rightarrow> Null | Some v \<Rightarrow> v)
         | other \<Rightarrow> None)
      else if f = ''in'' then
        (case args of
           [needle, A [S lit, A items]] \<Rightarrow>
             (if lit = ''literal''
              then (case evalExpr p needle of
                      Some v \<Rightarrow> Some (Bool (v \<in> set (map literalValue items)))
                    | None \<Rightarrow> None)
              else None)
         | [needle, hay] \<Rightarrow>
             (case (evalExpr p needle, evalExpr p hay) of
                (Some v, Some Null) \<Rightarrow> Some (Bool False)
              | (Some (Str n), Some (Str h)) \<Rightarrow> Some (Bool (sublist n h))
              | other \<Rightarrow> None)
         | other \<Rightarrow> None)
      else if f = ''=='' then
        (case args of
           [a, b] \<Rightarrow>
             (case (evalExpr p a, evalExpr p b) of
                (Some v, Some w) \<Rightarrow> Some (Bool (v = w))
              | other \<Rightarrow> None)
         | other \<Rightarrow> None)
      else if f = ''!'' then
        (case args of
           [x] \<Rightarrow> (case evalExpr p x of Some (Bool b) \<Rightarrow> Some (Bool (\<not> b)) | other \<Rightarrow> None)
         | other \<Rightarrow> None)
      else if f = ''all'' then evalAll p args
      else if f = ''case'' then evalCase p args
      else None)"
| "evalAll p [] = Some (Bool True)"
| "evalAll p (x # xs) =
     (case evalExpr p x of
        Some (Bool b) \<Rightarrow> if b then evalAll p xs else Some (Bool False)
      | other \<Rightarrow> None)"
| "evalCase p [] = None"
| "evalCase p [fallback] = evalExpr p fallback"
| "evalCase p (c # out # rest) =
     (case evalExpr p c of
        Some (Bool b) \<Rightarrow> if b then evalExpr p out else evalCase p rest
      | other \<Rightarrow> None)"

text \<open>A feature is drawn when no filter is set or the filter evaluates to true.\<close>

definition passes :: "jexpr option \<Rightarrow> props \<Rightarrow> bool" where
  "passes flt p = (case flt of None \<Rightarrow> True | Some e \<Rightarrow> evalExpr p e = Some (Bool True))"

section \<open>Percentages of the side panel\<close>

text \<open>
  The three operations on doubles that \<open>pct\<close> uses: \<open>a / b\<close>, \<open>a * b\<close> and
  \<open>Math.round(a)\<close>. They are the language's own and are taken as parameters.
\<close>

record arith =
  js_div :: "jsnum \<Rightarrow> jsnum \<Rightarrow> jsnum"
  js_mul :: "jsnum \<Rightarrow> jsnum \<Rightarrow> jsnum"
  Math_round :: "jsnum \<Rightarrow> jsnum"

text \<open>\<open>total ? Math.round((num / total) * 100) : 0\<close>; \<open>tot\<close> is \<open>total\<close>.\<close>

definition pct :: "arith \<Rightarrow> jsnum \<Rightarrow> jsnum \<Rightarrow> jsnum" where
  "pct ar num tot =
     (if truthy_num tot then Math_round ar (js_mul ar (js_div ar num tot) (Fin 100))
      else Fin 0)"

text \<open>
  The Technology panel: one percentage for each entry of \<open>techData\<close>, whose values are
  the five per-technology counts of the region record; \<open>tot\<close> is the record's
  \<open>total\<close>.
\<close>

definition techShares :: "arith \<Rightarrow> jsnum list \<Rightarrow> jsnum \<Rightarrow> jsnum list" where
  "techShares ar vals tot = map (\<lambda>v. pct ar v tot) vals"

section \<open>Spreadsheet rows to point features\<close>

record geojson_point =
  ptype :: string
  coordinates :: "jsnum list"

record geojson_feature =
  ftype :: string
  fgeometry :: geojson_point
  fproperties :: props

record feature_collection =
  ctype :: string
  features :: "geojson_feature list"

text \<open>\<open>a && b\<close> is \<open>b\<close> when \<open>a\<close> is truthy, and \<open>a\<close> otherwise.\<close>

definition js_and :: "jsval \<Rightarrow> jsval \<Rightarrow> jsval" where
  "js_and a b = (if truthy a then b else a)"

text \<open>
  \<open>String(v)\<close>. The decimal form of a number is the language's own algorithm and is
  taken as the parameter \<open>fmt\<close>.
\<close>

fun JString :: "(jsnum \<Rightarrow> string) \<Rightarrow> jsval \<Rightarrow> string" where
  "JString fmt Undefined = ''undefined''"
| "JString fmt Null = ''null''"
| "JString fmt (Bool b) = (if b then ''true'' else ''false'')"
| "JString fmt (Num n) = fmt n"
| "JString fmt (Str s) = s"

text \<open>\<open>s.replace(',', '.')\<close> with a string pattern: only the first occurrence.\<close>

fun replaceFirst :: "char \<Rightarrow> char \<Rightarrow> string \<Rightarrow> string" where
  "replaceFirst a b [] = []"
| "replaceFirst a b (c # cs) = (if c = a then b # cs else c # replaceFirst a b cs)"

text \<open>
  The conversion, from the rows that \<open>sheet_to_json\<close> returns. \<open>Number(s)\<close> on a
  string is the language's own parser and is taken as the parameter \<open>parse\<close>.
\<close>

definition toCoordinate :: "(jsnum \<Rightarrow> string) \<Rightarrow> (string \<Rightarrow> jsnum) \<Rightarrow> jsval \<Rightarrow> jsnum" where
  "toCoordinate fmt parse v = parse (replaceFirst (CHR '','') (CHR ''.'') (JString fmt v))"

definition convertExcelToGeoJSON ::
  "(jsnum \<Rightarrow> string) \<Rightarrow> (string \<Rightarrow> jsnum) \<Rightarrow> props list \<Rightarrow> feature_collection" where
  "convertExcelToGeoJSON fmt parse data =
     \<lparr> ctype = ''FeatureCollection'',
       features =
         map (\<lambda>row. \<lparr> ftype = ''Feature'',
                      fgeometry = \<lparr> ptype = ''Point'',
                        coordinates = [toCoordinate fmt parse (getProp row ''LONGITUDE''),
                                       toCoordinate fmt parse (getProp row ''LATITUDE'')] \<rparr>,
                      fproperties = row \<rparr>)
             (filter (\<lambda>row. truthy (js_and (getProp row ''LONGITUDE'')
                                           (getProp row ''LATITUDE''))) data) \<rparr>"

section \<open>Vocabulary of the specification\<close>

text \<open>The region conjunct and a membership conjunct, as the renderer receives them.\<close>

definition regionCond :: "string \<Rightarrow> jexpr" where
  "regionCond n = A [S ''=='', A [S ''get'', S ''state''], S n]"

definition memberCond :: "string \<Rightarrow> string list \<Rightarrow> jexpr" where
  "memberCond field vs = A [S ''in'', A [S ''get'', S field], A [S ''literal'', A (map S vs)]]"

text \<open>
  A region is present when the argument passes the source's test \<open>if (stateName)\<close>: it
  is neither \<open>null\<close> nor the empty string.
\<close>

definition regionPresent :: "string option \<Rightarrow> bool" where
  "regionPresent r = (case r of None \<Rightarrow> False | Some n \<Rightarrow> n \<noteq> [])"

text \<open>One conjunct for each active dimension, the region first.\<close>

definition dimensionConjuncts ::
  "string list \<Rightarrow> string list \<Rightarrow> string list \<Rightarrow> string option \<Rightarrow> jexpr list" where
  "dimensionConjuncts ys ss ts r =
     (case r of None \<Rightarrow> [] | Some n \<Rightarrow> if n = [] then [] else [regionCond n])
     @ (if ys = [] then [] else [memberCond ''year'' ys])
     @ (if ss = [] then [] else [memberCond ''status'' ss])
     @ (if ts = [] then [] else [memberCond ''type'' ts])"

text \<open>The value that \<open>['get', k]\<close> reads from a feature: \<open>null\<close> when \<open>k\<close> is missing.\<close>

definition propValue :: "props \<Rightarrow> string \<Rightarrow> jsval" where
  "propValue p k = (case map_of p k of None \<Rightarrow> Null | Some v \<Rightarrow> v)"

fun isRegionCond :: "jexpr \<Rightarrow> bool" where
  "isRegionCond (A [S f, A [S g, S k], S n]) = (f = ''=='' \<and> g = ''get'' \<and> k = ''state'')"
| "isRegionCond e = False"

text \<open>A compiled predicate with its region conjunct taken out.\<close>

definition dropRegion :: "jexpr option \<Rightarrow> jexpr option" where
  "dropRegion flt =
     (case flt of
        None \<Rightarrow> None
      | Some e \<Rightarrow>
          if isRegionCond e then None
          else (case e of
                  A (S f # cs) \<Rightarrow>
                    if f = ''all'' then mkFilter (filter (\<lambda>c. \<not> isRegionCond c) cs)
                    else Some e
                | other \<Rightarrow> Some e))"

text \<open>The selections that a list of toggles leaves, computed on the lists alone.\<close>

fun selectionAfter ::
  "mutation list \<Rightarrow> string list \<times> string list \<times> string list
     \<Rightarrow> string list \<times> string list \<times> string list" where
  "selectionAfter [] sel = sel"
| "selectionAfter (ToggleYear y # ms) (ys, ss, ts) = selectionAfter ms (toggle y ys, ss, ts)"
| "selectionAfter (ToggleStatus s # ms) (ys, ss, ts) = selectionAfter ms (ys, toggle s ss, ts)"
| "selectionAfter (ToggleType t # ms) (ys, ss, ts) = selectionAfter ms (ys, ss, toggle t ts)"

definition selection :: "app_state \<Rightarrow> string list \<times> string list \<times> string list" where
  "selection st = (selectedYears st, selectedStatus st, selectedTypes st)"

section \<open>Timer order and a loaded map\<close>

text \<open>The order in which the page runs a queue of pending timers.\<close>

function fireOrder :: "timer list \<Rightarrow> timer list" where
  "fireOrder ts = (case nextTimer ts of None \<Rightarrow> [] | Some t \<Rightarrow> t # fireOrder (remove1 t ts))"
  by pat_completeness auto
termination
proof (relation "measure length")
  show "wf (measure length)" by simp
next
  fix ts :: "timer list" and t
  assume nt: "nextTimer ts = Some t"
  have mem: "nextTimer us = Some u \<Longrightarrow> u \<in> set us" for us u
    by (induction us arbitrary: u) (auto split: option.splits if_splits)
  from mem[OF nt] have "length (remove1 t ts) < length ts"
    by (auto simp: length_remove1 dest: length_pos_if_in_set)
  then show "(remove1 t ts, ts) \<in> measure length" by simp
qed

declare fireOrder.simps [simp del]

text \<open>
  The pending timers are due in the order in which they were scheduled, and none is due
  later than a re-sample scheduled now would be.
\<close>

definition queueOrdered :: "app_state \<Rightarrow> bool" where
  "queueOrdered st =
     (sorted (map due (timers st)) \<and> (\<forall>t \<in> set (timers st). due t \<le> now st + 300))"

text \<open>
  The component after mount, map load and the first sample, which found \<open>n\<close> points.
\<close>

definition stateAfterLoad :: "nat \<Rightarrow> app_state" where
  "stateAfterLoad n = fireNext n (onLoad (initMap initialState))"

section \<open>Basic facts\<close>

lemma issue_frame:
  "view (issue c st) = view st"
  "selectedYears (issue c st) = selectedYears st"
  "selectedStatus (issue c st) = selectedStatus st"
  "selectedTypes (issue c st) = selectedTypes st"
  "activeState (issue c st) = activeState st"
  "stateData (issue c st) = stateData st"
  "pointCount (issue c st) = pointCount st"
  "mapReady (issue c st) = mapReady st"
  "now (issue c st) = now st"
  "timers (issue c st) = timers st"
  by (simp_all add: issue_def split: option.splits)

lemma layerReady_issue: "layerReady (issue c st) = layerReady st"
  by (simp add: issue_def layerReady_def getLayer_def split: option.splits)

lemma commands_issue:
  "commands (issue c st) = (if mapRef st = None then [] else commands st @ [c])"
  by (simp add: issue_def commands_def split: option.splits)

lemma layerReady_update [simp]:
  "layerReady (st\<lparr>selectedYears := a\<rparr>) = layerReady st"
  "layerReady (st\<lparr>selectedStatus := a\<rparr>) = layerReady st"
  "layerReady (st\<lparr>selectedTypes := a\<rparr>) = layerReady st"
  "layerReady (st\<lparr>activeState := b\<rparr>) = layerReady st"
  "layerReady (st\<lparr>stateData := c\<rparr>) = layerReady st"
  by (simp_all add: layerReady_def)

lemma commands_update [simp]:
  "commands (st\<lparr>selectedYears := a\<rparr>) = commands st"
  "commands (st\<lparr>selectedStatus := a\<rparr>) = commands st"
  "commands (st\<lparr>selectedTypes := a\<rparr>) = commands st"
  "commands (st\<lparr>activeState := b\<rparr>) = commands st"
  "commands (st\<lparr>stateData := c\<rparr>) = commands st"
  by (simp_all add: commands_def)

lemma layerReadyE:
  assumes "layerReady st"
  obtains m where "mapRef st = Some m" "getLayer m ''project-points''"
  using assms by (auto simp: layerReady_def split: option.splits)

lemma layerReady_tick: "layerReady (tick d st) = layerReady st"
  by (simp add: tick_def layerReady_def)

lemma timers_tick: "timers (tick d st) = timers st"
  by (simp add: tick_def)

lemma now_tick: "now (tick d st) = now st + d"
  by (simp add: tick_def)

subsection \<open>applyFilter\<close>

lemma applyFilter_ready:
  assumes "mapRef st = Some m" "getLayer m ''project-points''"
  shows "applyFilter ys ss ts r st =
     st\<lparr>mapRef := Some (m\<lparr>issued := issued m @
                          [SetFilter ''project-points'' (buildFilter ys ss ts r)]\<rparr>),
        timers := timers st @ [\<lparr>due = now st + 300, job = SampleCount\<rparr>]\<rparr>"
  using assms by (simp add: applyFilter_def issue_def setTimeout_def)

lemma applyFilter_unready: "\<not> layerReady st \<Longrightarrow> applyFilter ys ss ts r st = st"
  by (simp add: applyFilter_def layerReady_def split: option.splits)

lemma applyFilter_frame:
  "view (applyFilter ys ss ts r st) = view st"
  "selectedYears (applyFilter ys ss ts r st) = selectedYears st"
  "selectedStatus (applyFilter ys ss ts r st) = selectedStatus st"
  "selectedTypes (applyFilter ys ss ts r st) = selectedTypes st"
  "activeState (applyFilter ys ss ts r st) = activeState st"
  "stateData (applyFilter ys ss ts r st) = stateData st"
  "pointCount (applyFilter ys ss ts r st) = pointCount st"
  "mapReady (applyFilter ys ss ts r st) = mapReady st"
  "now (applyFilter ys ss ts r st) = now st"
  "layerReady (applyFilter ys ss ts r st) = layerReady st"
  by (simp_all add: applyFilter_def issue_def setTimeout_def layerReady_def getLayer_def
      split: option.splits)

lemma applyFilter_timers:
  "layerReady st \<Longrightarrow>
   timers (applyFilter ys ss ts r st) = timers st @ [\<lparr>due = now st + 300, job = SampleCount\<rparr>]"
  by (erule layerReadyE) (simp add: applyFilter_ready)

lemma applyFilter_commands:
  "layerReady st \<Longrightarrow>
   commands (applyFilter ys ss ts r st) =
     commands st @ [SetFilter ''project-points'' (buildFilter ys ss ts r)]"
  by (erule layerReadyE) (simp add: applyFilter_ready commands_def)

lemma lastFilter_snoc:
  "lastFilter (cs @ [c]) =
     (case c of
        SetFilter lid f \<Rightarrow> if lid = ''project-points'' then Some f else lastFilter cs
      | other \<Rightarrow> lastFilter cs)"
  by (induction cs) (simp_all split: command.splits option.splits)

lemma currentFilter_applyFilter:
  "layerReady st \<Longrightarrow>
   currentFilter (applyFilter ys ss ts r st) = Some (buildFilter ys ss ts r)"
  by (erule layerReadyE) (simp add: applyFilter_ready currentFilter_def lastFilter_snoc)

subsection \<open>The predicate\<close>

lemma conditions_dimensionConjuncts:
  "conditions ys ss ts r = dimensionConjuncts ys ss ts r"
  by (simp add: conditions_def dimensionConjuncts_def regionCond_def memberCond_def
      split: option.split)

lemma length_dimensionConjuncts:
  "length (dimensionConjuncts ys ss ts r) =
     (if regionPresent r then 1 else 0) + (if ys = [] then 0 else 1)
     + (if ss = [] then 0 else 1) + (if ts = [] then 0 else 1)"
  by (simp add: dimensionConjuncts_def regionPresent_def split: option.split)

lemma mkFilter_simps:
  "mkFilter [] = None"
  "mkFilter [c] = Some c"
  "mkFilter (c # d # cs) = Some (A (S ''all'' # c # d # cs))"
  by (simp_all add: mkFilter_def)

lemma evalExpr_regionCond:
  "evalExpr p (regionCond n) = Some (Bool (propValue p ''state'' = Str n))"
  by (simp add: regionCond_def propValue_def)

lemma literalValue_S: "map literalValue (map S vs) = map Str vs"
  by (induction vs) simp_all

lemma evalExpr_memberCond:
  "evalExpr p (memberCond k vs) = Some (Bool (propValue p k \<in> Str ` set vs))"
  by (simp add: memberCond_def propValue_def literalValue_S)

lemma evalAll_decided:
  "\<forall>c \<in> set cs. \<exists>b. evalExpr p c = Some (Bool b) \<Longrightarrow>
   evalAll p cs = Some (Bool (\<forall>c \<in> set cs. evalExpr p c = Some (Bool True)))"
  by (induction cs) auto

lemma passes_mkFilter:
  assumes "\<forall>c \<in> set cs. \<exists>b. evalExpr p c = Some (Bool b)"
  shows "passes (mkFilter cs) p \<longleftrightarrow> (\<forall>c \<in> set cs. evalExpr p c = Some (Bool True))"
proof (cases cs)
  case Nil
  then show ?thesis by (simp add: mkFilter_simps passes_def)
next
  case (Cons c ds)
  note c = this
  show ?thesis
  proof (cases ds)
    case Nil
    with c show ?thesis by (simp add: mkFilter_simps passes_def)
  next
    case (Cons d es)
    have "evalExpr p (A (S ''all'' # cs)) = evalAll p cs" by simp
    with assms c Cons show ?thesis
      by (simp add: mkFilter_simps passes_def evalAll_decided
          del: evalExpr.simps evalAll.simps)
  qed
qed

lemma decided_dimensionConjuncts:
  "\<forall>c \<in> set (dimensionConjuncts ys ss ts r). \<exists>b. evalExpr p c = Some (Bool b)"
  by (auto simp: dimensionConjuncts_def evalExpr_regionCond evalExpr_memberCond
      split: option.splits if_splits)

lemma passes_buildFilter:
  "passes (buildFilter ys ss ts r) p \<longleftrightarrow>
     (\<forall>n. r = Some n \<and> n \<noteq> [] \<longrightarrow> propValue p ''state'' = Str n)
     \<and> (ys \<noteq> [] \<longrightarrow> propValue p ''year'' \<in> Str ` set ys)
     \<and> (ss \<noteq> [] \<longrightarrow> propValue p ''status'' \<in> Str ` set ss)
     \<and> (ts \<noteq> [] \<longrightarrow> propValue p ''type'' \<in> Str ` set ts)"
  unfolding buildFilter_def conditions_dimensionConjuncts
  by (subst passes_mkFilter[OF decided_dimensionConjuncts])
     (auto simp: dimensionConjuncts_def evalExpr_regionCond evalExpr_memberCond
      split: option.splits if_splits)

lemma dropRegion_buildFilter:
  "dropRegion (buildFilter ys ss ts r) = buildFilter ys ss ts None"
  by (cases r; cases ys; cases ss; cases ts)
     (simp_all add: buildFilter_def conditions_def mkFilter_def dropRegion_def)

lemma conditions_without_region:
  "filter (\<lambda>c. \<not> isRegionCond c) (conditions ys ss ts r) = conditions ys ss ts None"
  by (simp add: conditions_def split: option.splits)

lemma conditions_with_region:
  "n \<noteq> [] \<Longrightarrow> conditions ys ss ts (Some n) = regionCond n # conditions ys ss ts None"
  by (simp add: conditions_def regionCond_def)

subsection \<open>Toggles and handlers\<close>

lemma selection_toggle:
  "selection (toggleYear y st) = (toggle y (selectedYears st), selectedStatus st, selectedTypes st)"
  "selection (toggleStatus s st) = (selectedYears st, toggle s (selectedStatus st), selectedTypes st)"
  "selection (toggleType t st) = (selectedYears st, selectedStatus st, toggle t (selectedTypes st))"
  by (simp_all add: selection_def toggleYear_def toggleStatus_def toggleType_def Let_def
      applyFilter_frame)

lemma layerReady_mutate: "layerReady (mutate mu st) = layerReady st"
  by (cases mu)
     (simp_all add: toggleYear_def toggleStatus_def toggleType_def Let_def applyFilter_frame)

lemma layerReady_mutations: "layerReady (mutations ms st) = layerReady st"
  unfolding mutations_def by (induction ms arbitrary: st) (simp_all add: layerReady_mutate)

lemma selection_mutate:
  "selection (mutate mu st) = selectionAfter [mu] (selection st)"
  by (cases mu) (simp_all add: selection_toggle, simp_all add: selection_def)

lemma selectionAfter_Cons:
  "selectionAfter (mu # ms) sel = selectionAfter ms (selectionAfter [mu] sel)"
  by (cases mu; cases sel) simp_all

lemma selection_mutations:
  "selection (mutations ms st) = selectionAfter ms (selection st)"
  unfolding mutations_def
proof (induction ms arbitrary: st)
  case Nil
  show ?case by simp
next
  case (Cons mu ms)
  have "selection (foldl (\<lambda>s m. mutate m s) (mutate mu st) ms) =
          selectionAfter ms (selection (mutate mu st))"
    by (rule Cons.IH)
  then show ?case
    by (simp add: selection_mutate selectionAfter_Cons[of mu ms])
qed

lemma handleStateClick_ready:
  assumes "layerReady st" "getProp (properties f) ''shapeName'' = Str n"
  shows "handleStateClick ext snap (f # fs) st =
     (None, applyFilter (selectedYears st) (selectedStatus st) (selectedTypes st)
              (Some (toUpperCase ext n))
              (issue (FitBounds f 40)
                 (st\<lparr>activeState := Some (toUpperCase ext n),
                     stateData := Some (properties f)\<rparr>)))"
  using assms
  by (auto simp: handleStateClick_def Let_def issue_def layerReady_def split: option.splits)

lemma handleMapClick_ready:
  assumes "layerReady st"
  shows "handleMapClick snap hits st =
     (None, if hits = [] then applyFilter (selectedYears st) (selectedStatus st)
               (selectedTypes st) None (st\<lparr>activeState := None, stateData := None\<rparr>)
            else st)"
  using assms
  by (auto simp: handleMapClick_def Let_def layerReady_def split: option.splits)

lemma upperChar_not_lower: "upperChar c \<notin> set ''abcdefghijklmnopqrstuvwxyz''"
  by (simp add: upperChar_def)

lemma upperChar_other: "c \<notin> set ''abcdefghijklmnopqrstuvwxyz'' \<Longrightarrow> upperChar c = c"
  by (simp add: upperChar_def)

lemma stateAfterLoad_eq:
  "stateAfterLoad n = \<lparr> view = ''performance'', panelOpen = False, selectedYears = [],
     selectedStatus = [], selectedTypes = [], activeState = None, stateData = None,
     pointCount = Some n, mapReady = True,
     mapRef = Some \<lparr>layers = [''state-choropleth'', ''state-fill'', ''state-fill-hover'',
                              ''state-border'', ''project-points''], issued = []\<rparr>,
     now = 500, timers = [] \<rparr>"
  by (simp add: stateAfterLoad_def initialState_def initMap_def onLoad_def setTimeout_def
      fireNext_def)

lemma layerReady_stateAfterLoad: "layerReady (stateAfterLoad n)"
  by (simp add: stateAfterLoad_eq layerReady_def getLayer_def)

lemma mapRef_stateAfterLoad:
  "mapRef (stateAfterLoad n) =
     Some \<lparr>layers = [''state-choropleth'', ''state-fill'', ''state-fill-hover'',
                     ''state-border'', ''project-points''], issued = []\<rparr>"
  by (simp add: stateAfterLoad_eq)

lemma mapReady_stateAfterLoad: "mapReady (stateAfterLoad n)"
  by (simp add: stateAfterLoad_eq)

subsection \<open>The timer queue\<close>

lemma nextTimer_nonempty: "ts \<noteq> [] \<Longrightarrow> \<exists>t. nextTimer ts = Some t"
  by (cases ts) (auto split: option.splits)

lemma nextTimer_sorted:
  "sorted (map due ts) \<Longrightarrow> ts \<noteq> [] \<Longrightarrow> nextTimer ts = Some (hd ts)"
proof (induction ts)
  case Nil
  then show ?case by simp
next
  case (Cons t ts)
  show ?case
  proof (cases ts)
    case Nil
    then show ?thesis by simp
  next
    case (Cons u us)
    with Cons.prems Cons.IH have "nextTimer ts = Some u" and "due t \<le> due u"
      by simp_all
    then show ?thesis by simp
  qed
qed

lemma fireOrder_sorted: "sorted (map due ts) \<Longrightarrow> fireOrder ts = ts"
proof (induction ts)
  case Nil
  show ?case by (simp add: fireOrder.simps)
next
  case (Cons t ts)
  then have "nextTimer (t # ts) = Some t"
    using nextTimer_sorted[of "t # ts"] by simp
  moreover from Cons have "fireOrder ts = ts" by simp
  ultimately show ?case by (subst fireOrder.simps) simp
qed

lemma queueOrdered_call:
  assumes "queueOrdered st" "layerReady st"
  shows "queueOrdered (applyFilter ys ss ts r (tick d st))"
proof -
  have lr: "layerReady (tick d st)" using assms(2) by (simp add: layerReady_tick)
  have "timers (applyFilter ys ss ts r (tick d st)) =
          timers st @ [\<lparr>due = now st + d + 300, job = SampleCount\<rparr>]"
    using applyFilter_timers[OF lr] by (simp add: timers_tick now_tick)
  moreover have "now (applyFilter ys ss ts r (tick d st)) = now st + d"
    by (simp add: applyFilter_frame now_tick)
  ultimately show ?thesis
    using assms(1) by (auto simp: queueOrdered_def sorted_append)
qed

lemma burst_ordered:
  "queueOrdered st \<Longrightarrow> layerReady st \<Longrightarrow> queueOrdered (burst cs st) \<and> layerReady (burst cs st)"
proof (induction cs st rule: burst.induct)
  case (1 st)
  then show ?case by simp
next
  case (2 d ys ss ts r cs st)
  have "queueOrdered (applyFilter ys ss ts r (tick d st))"
    using "2.prems" by (rule queueOrdered_call)
  moreover have "layerReady (applyFilter ys ss ts r (tick d st))"
    using "2.prems"(2) by (simp add: applyFilter_frame layerReady_tick)
  ultimately show ?case using "2.IH" by simp
qed

lemma burst_timers_length:
  "layerReady st \<Longrightarrow> length (timers (burst cs st)) = length (timers st) + length cs"
proof (induction cs st rule: burst.induct)
  case (1 st)
  then show ?case by simp
next
  case (2 d ys ss ts r cs st)
  have lr: "layerReady (tick d st)" using "2.prems" by (simp add: layerReady_tick)
  then have "layerReady (applyFilter ys ss ts r (tick d st))"
    by (simp add: applyFilter_frame)
  from "2.IH"[OF this] show ?case
    by (simp add: applyFilter_timers[OF lr] timers_tick)
qed

lemma burst_pointCount: "pointCount (burst cs st) = pointCount st"
  by (induction cs st rule: burst.induct) (simp_all add: applyFilter_frame tick_def)

lemma pointCount_runTask: "pointCount (runTask j n st) = Some n"
  by (cases j) simp_all

lemma timers_runTask: "timers (runTask j n st) = timers st"
  by (cases j) simp_all

lemma fireNext_publishes:
  assumes "timers st \<noteq> []"
  shows "pointCount (fireNext n st) = Some n"
proof -
  from assms obtain t where "nextTimer (timers st) = Some t"
    using nextTimer_nonempty by blast
  then show ?thesis by (simp add: fireNext_def pointCount_runTask)
qed

lemma nextTimer_mem: "nextTimer ts = Some t \<Longrightarrow> t \<in> set ts"
  by (induction ts arbitrary: t) (auto split: option.splits if_splits)

lemma fireNext_length:
  assumes "timers st \<noteq> []"
  shows "length (timers (fireNext n st)) = length (timers st) - 1"
proof -
  from assms obtain t where t: "nextTimer (timers st) = Some t"
    using nextTimer_nonempty by blast
  then have "t \<in> set (timers st)" by (rule nextTimer_mem)
  with t show ?thesis by (simp add: fireNext_def timers_runTask length_remove1)
qed

lemma drain_all:
  "length ns = length (timers st) \<Longrightarrow> ns \<noteq> [] \<Longrightarrow>
   pointCount (drain ns st) = Some (last ns) \<and> timers (drain ns st) = []"
  unfolding drain_def
proof (induction ns arbitrary: st)
  case Nil
  then show ?case by simp
next
  case (Cons n ns)
  then have ne: "timers st \<noteq> []" by auto
  have len: "length ns = length (timers (fireNext n st))"
    using Cons.prems(1) by (simp add: fireNext_length[OF ne])
  show ?case
  proof (cases ns)
    case Nil
    with len show ?thesis by (simp add: fireNext_publishes[OF ne])
  next
    case (Cons k ks)
    then have "ns \<noteq> []" by simp
    from Cons.IH[OF len this] Cons show ?thesis by simp
  qed
qed

lemma mounted_eq:
  "initMap initialState = \<lparr> view = ''performance'', panelOpen = False, selectedYears = [],
     selectedStatus = [], selectedTypes = [], activeState = None, stateData = None,
     pointCount = None, mapReady = False,
     mapRef = Some \<lparr>layers = [], issued = []\<rparr>, now = 0, timers = [] \<rparr>"
  by (simp add: initMap_def initialState_def)

lemma loaded_eq:
  "onLoad (initMap initialState) = \<lparr> view = ''performance'', panelOpen = False,
     selectedYears = [], selectedStatus = [], selectedTypes = [], activeState = None,
     stateData = None, pointCount = None, mapReady = False,
     mapRef = Some \<lparr>layers = [''state-choropleth'', ''state-fill'', ''state-fill-hover'',
                              ''state-border'', ''project-points''], issued = []\<rparr>,
     now = 0, timers = [\<lparr>due = 500, job = InitialSample\<rparr>] \<rparr>"
  by (simp add: mounted_eq onLoad_def setTimeout_def)

subsection \<open>Row conversion\<close>

lemma truthy_js_and: "truthy (js_and a b) \<longleftrightarrow> truthy a \<and> truthy b"
  by (simp add: js_and_def)

lemma replaceFirst_absent: "a \<notin> set s \<Longrightarrow> replaceFirst a b s = s"
  by (induction s) auto

lemma replaceFirst_first:
  "a \<notin> set pre \<Longrightarrow> replaceFirst a b (pre @ a # post) = pre @ b # post"
  by (induction pre) auto

lemma upperChar_code:
  "c \<in> set ''abcdefghijklmnopqrstuvwxyz'' \<Longrightarrow>
   (of_char (upperChar c) :: nat) + 32 = of_char c"
  by (auto simp: upperChar_def)

lemma isAscii_code: "isAscii c \<longleftrightarrow> (of_char c :: nat) < 128"
  by (cases c) simp

lemma techColor_missing_type:
  "map_of p ''type'' = None \<or> map_of p ''type'' = Some Null \<Longrightarrow>
   evalExpr p techColorExpr = Some (Str ''#95a5a6'')"
  by (auto simp: techColorExpr_def)

lemma coordinate_cases:
  assumes "\<exists>lon lat. cs = [lon, lat]
     \<and> (\<forall>k c. (k = a \<and> c = lon) \<or> (k = b \<and> c = lat) \<longrightarrow> Q k c)"
  obtains lon lat where "cs = [lon, lat]" "Q a lon" "Q b lat"
  using assms by blast

lemma handleStateClick_snd:
  assumes "getProp (properties f) ''shapeName'' = Str n"
  shows "snd (handleStateClick ext snap (f # fs) st) =
     (if mapRef st = None
      then st\<lparr>activeState := Some (toUpperCase ext n), stateData := Some (properties f)\<rparr>
      else applyFilter (selectedYears st) (selectedStatus st) (selectedTypes st)
             (Some (toUpperCase ext n))
             (issue (FitBounds f 40)
                (st\<lparr>activeState := Some (toUpperCase ext n),
                    stateData := Some (properties f)\<rparr>)))"
  using assms
  by (auto simp: handleStateClick_def Let_def issue_def split: option.splits)

section \<open>Handlers registered once\<close>

text \<open>
  C1. The click handlers are created and registered once, in the load handler. Whatever
  the state was in the render that created them (\<open>snap\<close>, \<open>snap'\<close>), and for every
  list of year, status and type toggles performed since, a region click and an
  empty-area click hand the renderer the predicate compiled from the selections as the
  toggles left them: the handler sees every one of the mutations, three toggles in
  particular, and nothing of the values at registration.
\<close>

theorem handlers_read_current_selection:
  assumes "layerReady base" and "getProp (properties f) ''shapeName'' = Str n"
  shows "handleStateClick ext snap (f # fs) (mutations ms base) =
           handleStateClick ext snap' (f # fs) (mutations ms base)
     \<and> handleMapClick snap [] (mutations ms base) = handleMapClick snap' [] (mutations ms base)
     \<and> selection (mutations ms base) = selectionAfter ms (selection base)
     \<and> currentFilter (snd (handleStateClick ext snap (f # fs) (mutations ms base))) =
         (case selectionAfter ms (selection base) of
            (ys, ss, ts) \<Rightarrow> Some (buildFilter ys ss ts (Some (toUpperCase ext n))))
     \<and> currentFilter (snd (handleMapClick snap [] (mutations ms base))) =
         (case selectionAfter ms (selection base) of
            (ys, ss, ts) \<Rightarrow> Some (buildFilter ys ss ts None))"
proof -
  let ?st = "mutations ms base"
  have lr: "layerReady ?st" using assms(1) by (simp add: layerReady_mutations)
  have sel: "selection ?st = selectionAfter ms (selection base)"
    by (rule selection_mutations)
  then have split: "selectionAfter ms (selection base) =
      (selectedYears ?st, selectedStatus ?st, selectedTypes ?st)"
    by (simp add: selection_def)
  have a: "currentFilter (snd (handleStateClick ext snap (f # fs) ?st)) =
      Some (buildFilter (selectedYears ?st) (selectedStatus ?st) (selectedTypes ?st)
              (Some (toUpperCase ext n)))"
    by (simp add: handleStateClick_ready[OF lr assms(2)] currentFilter_applyFilter
        layerReady_issue lr)
  have b: "currentFilter (snd (handleMapClick snap [] ?st)) =
      Some (buildFilter (selectedYears ?st) (selectedStatus ?st) (selectedTypes ?st) None)"
    by (simp add: handleMapClick_ready[OF lr] currentFilter_applyFilter lr)
  have i: "handleStateClick ext snap (f # fs) ?st = handleStateClick ext snap' (f # fs) ?st"
    "handleMapClick snap [] ?st = handleMapClick snap' [] ?st"
    by (simp_all add: handleStateClick_def handleMapClick_def)
  show ?thesis using sel a b i by (simp add: split)
qed

theorem handlers_read_current_selection_witness:
  "currentFilter (snd (handleStateClick id (stateAfterLoad 120)
       [\<lparr>properties = [(''shapeName'', Str ''Lagos'')], geometry = []\<rparr>]
       (mutations [ToggleYear ''2022'', ToggleStatus ''ONGOING'', ToggleType ''GRID'']
          (stateAfterLoad 120))))
     = Some (Some (A [S ''all'', regionCond ''LAGOS'', memberCond ''year'' [''2022''],
                      memberCond ''status'' [''ONGOING''], memberCond ''type'' [''GRID'']]))
   \<and> currentFilter (snd (handleMapClick (stateAfterLoad 120) []
       (mutations [ToggleYear ''2022'', ToggleStatus ''ONGOING'', ToggleType ''GRID'']
          (stateAfterLoad 120))))
     = Some (Some (A [S ''all'', memberCond ''year'' [''2022''],
                      memberCond ''status'' [''ONGOING''], memberCond ''type'' [''GRID'']]))"
proof -
  have p: "getProp (properties \<lparr>properties = [(''shapeName'', Str ''Lagos'')], geometry = []\<rparr>)
             ''shapeName'' = Str ''Lagos''"
    by (simp add: getProp_def)
  have s: "selectionAfter [ToggleYear ''2022'', ToggleStatus ''ONGOING'', ToggleType ''GRID'']
             (selection (stateAfterLoad 120)) = ([''2022''], [''ONGOING''], [''GRID''])"
    by (simp add: stateAfterLoad_eq selection_def toggle_def)
  have u: "toUpperCase id ''Lagos'' = ''LAGOS''"
    by (simp add: toUpperCase_def upperChar_def)
  show ?thesis
    using handlers_read_current_selection[where base = "stateAfterLoad 120"
        and ms = "[ToggleYear ''2022'', ToggleStatus ''ONGOING'', ToggleType ''GRID'']"
        and snap = "stateAfterLoad 120" and snap' = "stateAfterLoad 120" and ext = id
        and fs = "[]", OF layerReady_stateAfterLoad p]
    by (simp add: s u buildFilter_def conditions_def mkFilter_def regionCond_def memberCond_def)
qed

section \<open>The compiled predicate\<close>

text \<open>
  C2. For every input of \<open>applyFilter\<close>, the predicate handed to the renderer has one
  conjunct for each non-empty selection list and one region-equality conjunct when a
  region is present, in the order region, year, status, type. With no conjunct the
  predicate is \<open>null\<close>; with one it is that conjunct, unwrapped; with two or more it
  is \<open>['all', ...]\<close> over all of them. A region is present when the argument passes
  the source's test \<open>if (stateName)\<close>, that is when it is neither \<open>null\<close> nor the
  empty string. Read by the renderer, the predicate lets a feature through exactly when
  the feature meets each active dimension: an empty list restricts nothing, and the
  \<open>null\<close> predicate lets every feature through.
\<close>

theorem predicate_compilation:
  "buildFilter ys ss ts r =
     (case dimensionConjuncts ys ss ts r of
        [] \<Rightarrow> None
      | [c] \<Rightarrow> Some c
      | c # d # cs \<Rightarrow> Some (A (S ''all'' # c # d # cs)))
   \<and> length (dimensionConjuncts ys ss ts r) =
       (if regionPresent r then 1 else 0) + (if ys = [] then 0 else 1)
       + (if ss = [] then 0 else 1) + (if ts = [] then 0 else 1)
   \<and> (passes (buildFilter ys ss ts r) p \<longleftrightarrow>
        (\<forall>n. r = Some n \<and> n \<noteq> [] \<longrightarrow> propValue p ''state'' = Str n)
        \<and> (ys \<noteq> [] \<longrightarrow> propValue p ''year'' \<in> Str ` set ys)
        \<and> (ss \<noteq> [] \<longrightarrow> propValue p ''status'' \<in> Str ` set ss)
        \<and> (ts \<noteq> [] \<longrightarrow> propValue p ''type'' \<in> Str ` set ts))"
proof (intro conjI)
  show "buildFilter ys ss ts r =
     (case dimensionConjuncts ys ss ts r of
        [] \<Rightarrow> None
      | [c] \<Rightarrow> Some c
      | c # d # cs \<Rightarrow> Some (A (S ''all'' # c # d # cs)))"
    unfolding buildFilter_def conditions_dimensionConjuncts
    by (simp add: mkFilter_simps split: list.split)
  show "length (dimensionConjuncts ys ss ts r) =
       (if regionPresent r then 1 else 0) + (if ys = [] then 0 else 1)
       + (if ss = [] then 0 else 1) + (if ts = [] then 0 else 1)"
    by (rule length_dimensionConjuncts)
  show "passes (buildFilter ys ss ts r) p \<longleftrightarrow>
        (\<forall>n. r = Some n \<and> n \<noteq> [] \<longrightarrow> propValue p ''state'' = Str n)
        \<and> (ys \<noteq> [] \<longrightarrow> propValue p ''year'' \<in> Str ` set ys)
        \<and> (ss \<noteq> [] \<longrightarrow> propValue p ''status'' \<in> Str ` set ss)
        \<and> (ts \<noteq> [] \<longrightarrow> propValue p ''type'' \<in> Str ` set ts)"
    by (rule passes_buildFilter)
qed

theorem predicate_compilation_witness:
  "buildFilter [''2022''] [''ONGOING''] [] (Some ''LAGOS'') =
     Some (A [S ''all'', regionCond ''LAGOS'', memberCond ''year'' [''2022''],
              memberCond ''status'' [''ONGOING'']])
   \<and> buildFilter [] [''ONGOING''] [] None = Some (memberCond ''status'' [''ONGOING''])
   \<and> buildFilter [] [] [] None = None
   \<and> passes (buildFilter [] [''ONGOING''] [] None)
        [(''year'', Str ''2020''), (''status'', Str ''ONGOING'')]
   \<and> \<not> passes (buildFilter [''2022''] [''ONGOING''] [] (Some ''LAGOS''))
        [(''year'', Str ''2020''), (''status'', Str ''ONGOING''), (''state'', Str ''LAGOS'')]"
  using predicate_compilation[of "[''2022'']" "[''ONGOING'']" "[]" "Some ''LAGOS''"
          "[(''year'', Str ''2020''), (''status'', Str ''ONGOING''), (''state'', Str ''LAGOS'')]"]
        predicate_compilation[of "[]" "[''ONGOING'']" "[]" None
          "[(''year'', Str ''2020''), (''status'', Str ''ONGOING'')]"]
        predicate_compilation[of "[]" "[]" "[]" None "[]"]
  by (auto simp add: dimensionConjuncts_def propValue_def)

section \<open>Region click\<close>

text \<open>
  C3. A click on a region whose \<open>shapeName\<close> is the string \<open>n\<close> stores the
  upper-cased name as the active region together with the region's properties, leaves
  the three selection lists as they are, and hands the renderer the predicate compiled
  from the selections current at the click and the new region: when the upper-cased
  name is non-empty, the region-equality conjunct followed by the conjuncts of the
  current selections. For an ASCII name the upper-cased name has the same length, each
  letter a to z is replaced by the character 32 codes below it (its capital), so that no
  lower-case letter remains, and every other character is kept; a non-empty ASCII name
  stays non-empty.
\<close>

theorem region_click:
  assumes "layerReady st" and "getProp (properties f) ''shapeName'' = Str n"
  shows "\<exists>st'. handleStateClick ext snap (f # fs) st = (None, st')
     \<and> activeState st' = Some (toUpperCase ext n)
     \<and> stateData st' = Some (properties f)
     \<and> selection st' = selection st
     \<and> currentFilter st' =
         Some (buildFilter (selectedYears st) (selectedStatus st) (selectedTypes st)
                 (Some (toUpperCase ext n)))
     \<and> (toUpperCase ext n \<noteq> [] \<longrightarrow>
          buildFilter (selectedYears st) (selectedStatus st) (selectedTypes st)
            (Some (toUpperCase ext n)) =
          mkFilter (regionCond (toUpperCase ext n) #
                      conditions (selectedYears st) (selectedStatus st) (selectedTypes st) None))
     \<and> (list_all isAscii n \<longrightarrow>
          length (toUpperCase ext n) = length n
          \<and> (n \<noteq> [] \<longrightarrow> toUpperCase ext n \<noteq> [])
          \<and> (\<forall>i < length n.
               toUpperCase ext n ! i \<notin> set ''abcdefghijklmnopqrstuvwxyz''
               \<and> (n ! i \<in> set ''abcdefghijklmnopqrstuvwxyz''
                    \<longrightarrow> (of_char (toUpperCase ext n ! i) :: nat) + 32 = of_char (n ! i))
               \<and> (n ! i \<notin> set ''abcdefghijklmnopqrstuvwxyz''
                    \<longrightarrow> toUpperCase ext n ! i = n ! i)))"
proof -
  let ?up = "toUpperCase ext n"
  let ?st' = "applyFilter (selectedYears st) (selectedStatus st) (selectedTypes st)
              (Some ?up)
              (issue (FitBounds f 40)
                 (st\<lparr>activeState := Some ?up, stateData := Some (properties f)\<rparr>))"
  have h: "handleStateClick ext snap (f # fs) st = (None, ?st')"
    using assms by (rule handleStateClick_ready)
  have "activeState ?st' = Some ?up" "stateData ?st' = Some (properties f)"
    "selection ?st' = selection st"
    by (simp_all add: applyFilter_frame issue_frame selection_def)
  moreover have "currentFilter ?st' =
         Some (buildFilter (selectedYears st) (selectedStatus st) (selectedTypes st)
                 (Some ?up))"
    using assms(1) by (simp add: currentFilter_applyFilter layerReady_issue)
  moreover have "?up \<noteq> [] \<longrightarrow>
          buildFilter (selectedYears st) (selectedStatus st) (selectedTypes st) (Some ?up) =
          mkFilter (regionCond ?up #
                      conditions (selectedYears st) (selectedStatus st) (selectedTypes st) None)"
    by (simp add: buildFilter_def conditions_with_region)
  moreover have "list_all isAscii n \<longrightarrow>
          length ?up = length n
          \<and> (n \<noteq> [] \<longrightarrow> ?up \<noteq> [])
          \<and> (\<forall>i < length n.
               ?up ! i \<notin> set ''abcdefghijklmnopqrstuvwxyz''
               \<and> (n ! i \<in> set ''abcdefghijklmnopqrstuvwxyz''
                    \<longrightarrow> (of_char (?up ! i) :: nat) + 32 = of_char (n ! i))
               \<and> (n ! i \<notin> set ''abcdefghijklmnopqrstuvwxyz'' \<longrightarrow> ?up ! i = n ! i))"
    using upperChar_not_lower upperChar_other upperChar_code by (simp add: toUpperCase_def)
  ultimately show ?thesis using h by blast
qed

theorem region_click_witness:
  "\<exists>st'. handleStateClick id initialState
       [\<lparr>properties = [(''shapeName'', Str ''Lagos''), (''total'', Num (Fin 12))],
         geometry = []\<rparr>]
       (stateAfterLoad 120 \<lparr>selectedYears := [''2022''], selectedStatus := [''ONGOING'']\<rparr>)
       = (None, st')
     \<and> activeState st' = Some ''LAGOS''
     \<and> stateData st' = Some [(''shapeName'', Str ''Lagos''), (''total'', Num (Fin 12))]
     \<and> selection st' = ([''2022''], [''ONGOING''], [])
     \<and> currentFilter st' = Some (Some (A [S ''all'', regionCond ''LAGOS'',
                                            memberCond ''year'' [''2022''],
                                            memberCond ''status'' [''ONGOING'']]))"
proof -
  let ?f = "\<lparr>properties = [(''shapeName'', Str ''Lagos''), (''total'', Num (Fin 12))],
             geometry = []\<rparr>"
  let ?st = "stateAfterLoad 120 \<lparr>selectedYears := [''2022''], selectedStatus := [''ONGOING'']\<rparr>"
  have lr: "layerReady ?st" by (simp add: layerReady_stateAfterLoad)
  have p: "getProp (properties ?f) ''shapeName'' = Str ''Lagos''" by (simp add: getProp_def)
  have u: "toUpperCase id ''Lagos'' = ''LAGOS''" by (simp add: toUpperCase_def upperChar_def)
  have b: "buildFilter [''2022''] [''ONGOING''] [] (Some ''LAGOS'') =
      Some (A [S ''all'', regionCond ''LAGOS'', memberCond ''year'' [''2022''],
               memberCond ''status'' [''ONGOING'']])"
    by (simp add: buildFilter_def conditions_def mkFilter_def regionCond_def memberCond_def)
  have s: "selection ?st = ([''2022''], [''ONGOING''], [])"
    "selectedYears ?st = [''2022'']" "selectedStatus ?st = [''ONGOING'']" "selectedTypes ?st = []"
    by (simp_all add: selection_def stateAfterLoad_eq)
  from region_click[OF lr p, where ext = id and snap = initialState and fs = "[]"]
  obtain st' where "handleStateClick id initialState [?f] ?st = (None, st')"
    and "activeState st' = Some (toUpperCase id ''Lagos'')"
    and "stateData st' = Some (properties ?f)"
    and "selection st' = selection ?st"
    and "currentFilter st' =
         Some (buildFilter (selectedYears ?st) (selectedStatus ?st) (selectedTypes ?st)
                 (Some (toUpperCase id ''Lagos'')))"
    by blast
  then show ?thesis by (simp add: u b s)
qed

section \<open>Empty-area click\<close>




section \<open>View switch\<close>

text \<open>
  C5. \<open>switchView\<close> never changes the year, status and type selections. When the
  switch takes place (the map exists and is ready), whatever the old and the new view,
  the view becomes the new one and the active region and the region data shown in the
  side panel are reset to absent.
\<close>

theorem view_switch_frame:
  "selection (switchView v st) = selection st
   \<and> (mapRef st \<noteq> None \<and> mapReady st \<longrightarrow>
        view (switchView v st) = v
        \<and> activeState (switchView v st) = None
        \<and> stateData (switchView v st) = None)"
  by (auto simp: switchView_def Let_def selection_def issue_frame split: option.splits)

theorem view_switch_frame_witness:
  "selection (switchView ''performance'' (switchView ''technology'' (switchView ''coverage''
      (stateAfterLoad 120
         \<lparr>selectedYears := [''2020'', ''2021''], activeState := Some ''LAGOS'',
          stateData := Some [(''shapeName'', Str ''Lagos''), (''total'', Num (Fin 12))]\<rparr>))))
     = ([''2020'', ''2021''], [], [])
   \<and> activeState (switchView ''technology''
        (stateAfterLoad 120
           \<lparr>selectedYears := [''2020'', ''2021''], activeState := Some ''LAGOS'',
            stateData := Some [(''shapeName'', Str ''Lagos''), (''total'', Num (Fin 12))]\<rparr>)) = None
   \<and> stateData (switchView ''technology''
        (stateAfterLoad 120
           \<lparr>selectedYears := [''2020'', ''2021''], activeState := Some ''LAGOS'',
            stateData := Some [(''shapeName'', Str ''Lagos''), (''total'', Num (Fin 12))]\<rparr>)) = None"
proof -
  let ?st = "stateAfterLoad 120
         \<lparr>selectedYears := [''2020'', ''2021''], activeState := Some ''LAGOS'',
          stateData := Some [(''shapeName'', Str ''Lagos''), (''total'', Num (Fin 12))]\<rparr>"
  have r: "mapRef ?st \<noteq> None \<and> mapReady ?st" by (simp add: stateAfterLoad_eq)
  have s: "selection ?st = ([''2020'', ''2021''], [], [])"
    by (simp add: stateAfterLoad_eq selection_def)
  show ?thesis
    using view_switch_frame[of "''technology''" ?st] r s
      view_switch_frame[of "''coverage''" ?st]
      view_switch_frame[of "''technology''" "switchView ''coverage'' ?st"]
      view_switch_frame[of "''performance''" "switchView ''technology'' (switchView ''coverage'' ?st)"]
    by simp
qed

section \<open>Technology colours\<close>

text \<open>
  C6. In Technology view the colour of a point is decided by substring tests on its type
  token, in this precedence: the token contains \<open>SOLAR STREET LIGHT\<close> and not
  \<open>MINI GRID\<close>, colour \<open>#f39c12\<close>; else it contains \<open>MINI GRID\<close>, colour \<open>#3498db\<close>;
  else it contains \<open>SOLAR HOME\<close>, colour \<open>#9b59b6\<close>; else it contains \<open>GRID\<close>,
  colour \<open>#E63946\<close>; else the fallback \<open>#95a5a6\<close>. The earliest rule that applies
  wins. This is the renderer's reading of the expression that \<open>switchView\<close> sets as
  \<open>circle-color\<close> when the new view is \<open>technology\<close>.
\<close>

theorem technology_colors:
  assumes "mapRef st = Some m" and "mapReady st" and "map_of p ''type'' = Some (Str t)"
  shows "last (commands (switchView ''technology'' st)) =
           SetPaintProperty ''project-points'' ''circle-color'' techColorExpr
       \<and> evalExpr p techColorExpr =
           Some (Str (if sublist ''SOLAR STREET LIGHT'' t \<and> \<not> sublist ''MINI GRID'' t
                      then ''#f39c12''
                      else if sublist ''MINI GRID'' t then ''#3498db''
                      else if sublist ''SOLAR HOME'' t then ''#9b59b6''
                      else if sublist ''GRID'' t then ''#E63946''
                      else ''#95a5a6''))"
proof
  show "last (commands (switchView ''technology'' st)) =
           SetPaintProperty ''project-points'' ''circle-color'' techColorExpr"
    using assms(1,2) by (simp add: switchView_def Let_def issue_def commands_def)
  show "evalExpr p techColorExpr =
           Some (Str (if sublist ''SOLAR STREET LIGHT'' t \<and> \<not> sublist ''MINI GRID'' t
                      then ''#f39c12''
                      else if sublist ''MINI GRID'' t then ''#3498db''
                      else if sublist ''SOLAR HOME'' t then ''#9b59b6''
                      else if sublist ''GRID'' t then ''#E63946''
                      else ''#95a5a6''))"
    using assms(3) by (simp add: techColorExpr_def)
qed

theorem technology_colors_witness:
  "evalExpr [(''type'', Str ''SOLAR MINI GRID/SOLAR STREET LIGHT'')] techColorExpr
     = Some (Str ''#3498db'')
   \<and> evalExpr [(''type'', Str ''GRID/SOLAR STREET LIGHT'')] techColorExpr = Some (Str ''#f39c12'')
   \<and> evalExpr [(''type'', Str ''GRID/SOLAR HOME SYSTEM'')] techColorExpr = Some (Str ''#9b59b6'')
   \<and> evalExpr [(''type'', Str ''INJECTION SUBSTATION'')] techColorExpr = Some (Str ''#95a5a6'')
   \<and> last (commands (switchView ''technology'' (stateAfterLoad 120))) =
       SetPaintProperty ''project-points'' ''circle-color'' techColorExpr"
proof -
  have t: "map_of [(''type'', Str s)] ''type'' = Some (Str s)" for s by simp
  note w = technology_colors[OF mapRef_stateAfterLoad mapReady_stateAfterLoad t]
  show ?thesis
    using w[of 120 "''SOLAR MINI GRID/SOLAR STREET LIGHT''"]
      w[of 120 "''GRID/SOLAR STREET LIGHT''"]
      w[of 120 "''GRID/SOLAR HOME SYSTEM''"]
      w[of 120 "''INJECTION SUBSTATION''"]
    by (simp add: sublist_code(3) del: evalExpr.simps)
qed

section \<open>The visible count\<close>

text \<open>
  C7. \<open>applyFilter\<close> does not sample the count itself: it leaves \<open>pointCount\<close> as it
  is and schedules one re-sample, due 300 ms later. After a burst of calls with no timer
  running in between, the count is still the old one and one re-sample is pending for
  each call. Every timer that runs publishes the count sampled at that moment, so when
  all pending samples have run the published count is that of the last one to run; and
  when the queue held nothing due later than a re-sample, the samples run in the order
  in which they were scheduled, so that the last to run is the one scheduled last.
\<close>

theorem resample_deferred:
  assumes "layerReady st"
  shows "pointCount (applyFilter ys ss ts r st) = pointCount st
     \<and> timers (applyFilter ys ss ts r st) =
         timers st @ [\<lparr>due = now st + 300, job = SampleCount\<rparr>]
     \<and> pointCount (burst cs st) = pointCount st
     \<and> length (timers (burst cs st)) = length (timers st) + length cs
     \<and> (timers (burst cs st) \<noteq> [] \<longrightarrow> pointCount (fireNext k (burst cs st)) = Some k)
     \<and> (length ns = length (timers (burst cs st)) \<and> ns \<noteq> [] \<longrightarrow>
          pointCount (drain ns (burst cs st)) = Some (last ns)
          \<and> timers (drain ns (burst cs st)) = [])
     \<and> (queueOrdered st \<longrightarrow> fireOrder (timers (burst cs st)) = timers (burst cs st))"
proof -
  have "pointCount (applyFilter ys ss ts r st) = pointCount st"
    by (simp add: applyFilter_frame)
  moreover have "timers (applyFilter ys ss ts r st) =
         timers st @ [\<lparr>due = now st + 300, job = SampleCount\<rparr>]"
    using assms by (rule applyFilter_timers)
  moreover have "pointCount (burst cs st) = pointCount st"
    by (rule burst_pointCount)
  moreover have "length (timers (burst cs st)) = length (timers st) + length cs"
    using assms by (rule burst_timers_length)
  moreover have "timers (burst cs st) \<noteq> [] \<longrightarrow> pointCount (fireNext k (burst cs st)) = Some k"
    by (simp add: fireNext_publishes)
  moreover have "length ns = length (timers (burst cs st)) \<and> ns \<noteq> [] \<longrightarrow>
          pointCount (drain ns (burst cs st)) = Some (last ns)
          \<and> timers (drain ns (burst cs st)) = []"
    using drain_all by blast
  moreover have "queueOrdered st \<longrightarrow> fireOrder (timers (burst cs st)) = timers (burst cs st)"
  proof
    assume "queueOrdered st"
    then have "queueOrdered (burst cs st)"
      using burst_ordered assms by blast
    then have "sorted (map due (timers (burst cs st)))"
      by (simp add: queueOrdered_def)
    then show "fireOrder (timers (burst cs st)) = timers (burst cs st)"
      by (rule fireOrder_sorted)
  qed
  ultimately show ?thesis by blast
qed

theorem resample_deferred_witness:
  "pointCount (burst [(0, ([''2022''], [], [], None)),
                      (50, ([''2022''], [''ONGOING''], [], None)),
                      (20, ([''2022''], [''ONGOING''], [''GRID''], None))]
                 (stateAfterLoad 120)) = Some 120
   \<and> length (timers (burst [(0, ([''2022''], [], [], None)),
                      (50, ([''2022''], [''ONGOING''], [], None)),
                      (20, ([''2022''], [''ONGOING''], [''GRID''], None))]
                 (stateAfterLoad 120))) = 3
   \<and> pointCount (drain [40, 9, 3]
        (burst [(0, ([''2022''], [], [], None)),
                (50, ([''2022''], [''ONGOING''], [], None)),
                (20, ([''2022''], [''ONGOING''], [''GRID''], None))]
           (stateAfterLoad 120))) = Some 3
   \<and> fireOrder (timers (burst [(0, ([''2022''], [], [], None)),
                (50, ([''2022''], [''ONGOING''], [], None)),
                (20, ([''2022''], [''ONGOING''], [''GRID''], None))]
           (stateAfterLoad 120)))
       = [\<lparr>due = 800, job = SampleCount\<rparr>, \<lparr>due = 850, job = SampleCount\<rparr>,
          \<lparr>due = 870, job = SampleCount\<rparr>]"
proof -
  let ?cs = "[(0, ([''2022''], [], [], None)),
                (50, ([''2022''], [''ONGOING''], [], None)),
                (20, ([''2022''], [''ONGOING''], [''GRID''], None))]"
  have q: "queueOrdered (stateAfterLoad 120)"
    by (simp add: queueOrdered_def stateAfterLoad_eq)
  have t: "timers (stateAfterLoad 120) = []" "pointCount (stateAfterLoad 120) = Some 120"
    by (simp_all add: stateAfterLoad_eq)
  have b: "timers (burst ?cs (stateAfterLoad 120)) =
      [\<lparr>due = 800, job = SampleCount\<rparr>, \<lparr>due = 850, job = SampleCount\<rparr>,
       \<lparr>due = 870, job = SampleCount\<rparr>]"
    by (simp add: stateAfterLoad_eq applyFilter_def tick_def getLayer_def issue_def
        setTimeout_def)
  note r = resample_deferred[OF layerReady_stateAfterLoad[of 120],
      where cs = ?cs and ns = "[40, 9, 3]"]
  from r have "pointCount (burst ?cs (stateAfterLoad 120)) = Some 120"
    by (simp add: t del: burst.simps)
  moreover from r have "length (timers (burst ?cs (stateAfterLoad 120))) = 3"
    by (simp add: t del: burst.simps)
  moreover from r b have "pointCount (drain [40, 9, 3] (burst ?cs (stateAfterLoad 120))) = Some 3"
    by (simp add: b del: burst.simps)
  moreover from r q b have "fireOrder (timers (burst ?cs (stateAfterLoad 120))) =
      [\<lparr>due = 800, job = SampleCount\<rparr>, \<lparr>due = 850, job = SampleCount\<rparr>,
       \<lparr>due = 870, job = SampleCount\<rparr>]"
    by (simp add: b del: burst.simps)
  ultimately show ?thesis by blast
qed

section \<open>Readiness\<close>




section \<open>The percentage guard\<close>

text \<open>
  C9. \<open>pct\<close> returns 0 whenever the total is 0, whatever the numerator and whatever
  the operations on doubles do (a \<open>NaN\<close> total is caught by the same test). It
  divides only by a total that passed the test: for every other total the result is
  \<open>Math.round((num / total) * 100)\<close>, and what \<open>/\<close> returns for a zero or
  \<open>NaN\<close> divisor has no influence on any result, so no division by zero is ever
  performed. For a region record whose total is 0, every per-technology share of the
  panel is 0, neither an infinity nor \<open>NaN\<close>.
\<close>

theorem percentage_guard:
  "pct ar num (Fin 0) = Fin 0
   \<and> pct ar num NaN = Fin 0
   \<and> ((\<forall>a b. truthy_num b \<longrightarrow> js_div ar' a b = js_div ar a b)
        \<and> js_mul ar' = js_mul ar \<and> Math_round ar' = Math_round ar
        \<longrightarrow> pct ar' num tot = pct ar num tot)
   \<and> (pct ar num tot \<noteq> Fin 0 \<longrightarrow> tot \<noteq> Fin 0 \<and> tot \<noteq> NaN)
   \<and> (tot \<noteq> Fin 0 \<and> tot \<noteq> NaN \<longrightarrow>
        pct ar num tot = Math_round ar (js_mul ar (js_div ar num tot) (Fin 100)))
   \<and> techShares ar vals (Fin 0) = map (\<lambda>v. Fin 0) vals"
proof (intro conjI impI)
  show "pct ar num (Fin 0) = Fin 0" by (simp add: pct_def)
  show "pct ar num NaN = Fin 0" by (simp add: pct_def)
  show "techShares ar vals (Fin 0) = map (\<lambda>v. Fin 0) vals"
    by (simp add: techShares_def pct_def)
next
  assume "(\<forall>a b. truthy_num b \<longrightarrow> js_div ar' a b = js_div ar a b)
        \<and> js_mul ar' = js_mul ar \<and> Math_round ar' = Math_round ar"
  then show "pct ar' num tot = pct ar num tot" by (simp add: pct_def)
next
  assume "pct ar num tot \<noteq> Fin 0"
  then have "truthy_num tot" by (simp add: pct_def split: if_splits)
  then show "tot \<noteq> Fin 0" and "tot \<noteq> NaN" by auto
next
  assume "tot \<noteq> Fin 0 \<and> tot \<noteq> NaN"
  then have "truthy_num tot" by (cases tot) simp_all
  then show "pct ar num tot = Math_round ar (js_mul ar (js_div ar num tot) (Fin 100))"
    by (simp add: pct_def)
qed

theorem percentage_guard_witness:
  "pct \<lparr>js_div = (\<lambda>a b. PosInf), js_mul = (\<lambda>a b. NaN), Math_round = (\<lambda>a. a)\<rparr>
       (Fin 7) (Fin 0) = Fin 0
   \<and> techShares \<lparr>js_div = (\<lambda>a b. PosInf), js_mul = (\<lambda>a b. NaN), Math_round = (\<lambda>a. a)\<rparr>
       [Fin 3, Fin 0, NaN, Fin 1, Fin 4] (Fin 0) = [Fin 0, Fin 0, Fin 0, Fin 0, Fin 0]
   \<and> pct \<lparr>js_div = (\<lambda>a b. if b = Fin 0 then PosInf else if a = Fin 1 \<and> b = Fin 4
                                then Fin (1 / 4) else NaN),
            js_mul = (\<lambda>a b. if a = Fin (1 / 4) \<and> b = Fin 100 then Fin 25 else NaN),
            Math_round = (\<lambda>a. a)\<rparr> (Fin 1) (Fin 4)
     = pct \<lparr>js_div = (\<lambda>a b. if a = Fin 1 \<and> b = Fin 4 then Fin (1 / 4) else NaN),
            js_mul = (\<lambda>a b. if a = Fin (1 / 4) \<and> b = Fin 100 then Fin 25 else NaN),
            Math_round = (\<lambda>a. a)\<rparr> (Fin 1) (Fin 4)
   \<and> pct \<lparr>js_div = (\<lambda>a b. if a = Fin 1 \<and> b = Fin 4 then Fin (1 / 4) else NaN),
            js_mul = (\<lambda>a b. if a = Fin (1 / 4) \<and> b = Fin 100 then Fin 25 else NaN),
            Math_round = (\<lambda>a. a)\<rparr> (Fin 1) (Fin 4) = Fin 25"
proof -
  let ?trap = "\<lparr>js_div = (\<lambda>a b. PosInf), js_mul = (\<lambda>a b. NaN), Math_round = (\<lambda>a. a)\<rparr>"
  let ?a = "\<lparr>js_div = (\<lambda>a b. if b = Fin 0 then PosInf else if a = Fin 1 \<and> b = Fin 4
                                then Fin (1 / 4) else NaN),
            js_mul = (\<lambda>a b. if a = Fin (1 / 4) \<and> b = Fin 100 then Fin 25 else NaN),
            Math_round = (\<lambda>a. a)\<rparr>"
  let ?b = "\<lparr>js_div = (\<lambda>a b. if a = Fin 1 \<and> b = Fin 4 then Fin (1 / 4) else NaN),
            js_mul = (\<lambda>a b. if a = Fin (1 / 4) \<and> b = Fin 100 then Fin 25 else NaN),
            Math_round = (\<lambda>a. a)\<rparr>"
  have agree: "(\<forall>a b. truthy_num b \<longrightarrow> js_div ?a a b = js_div ?b a b)
        \<and> js_mul ?a = js_mul ?b \<and> Math_round ?a = Math_round ?b"
    by auto
  have v: "pct ?b (Fin 1) (Fin 4) = Fin 25" by (simp add: pct_def)
  from percentage_guard[of ?trap "Fin 7" ?trap "Fin 0" "[Fin 3, Fin 0, NaN, Fin 1, Fin 4]"]
  have "pct ?trap (Fin 7) (Fin 0) = Fin 0"
    and "techShares ?trap [Fin 3, Fin 0, NaN, Fin 1, Fin 4] (Fin 0) =
           [Fin 0, Fin 0, Fin 0, Fin 0, Fin 0]"
    by simp_all
  moreover from percentage_guard[of ?b "Fin 1" ?a "Fin 4" "[]"] agree
  have "pct ?a (Fin 1) (Fin 4) = pct ?b (Fin 1) (Fin 4)" by blast
  ultimately show ?thesis using v by blast
qed

section \<open>Spreadsheet conversion\<close>

text \<open>
  C10. The conversion keeps a row exactly when its \<open>LONGITUDE\<close> and its
  \<open>LATITUDE\<close> are both truthy, in the order of the rows: a coordinate that is
  missing, \<open>undefined\<close>, \<open>null\<close>, \<open>false\<close>, the number 0, \<open>NaN\<close> or the
  empty string drops the row. Every feature is a
  \<open>Point\<close> feature whose properties are the whole row. Each of its two coordinates
  is the number parsed from the string form of the field after the first comma has been
  replaced by a dot; the string form is the text itself for a text cell, the decimal
  form of the number for a numeric cell and \<open>true\<close> for the boolean, and a kept field
  is one of these three.
\<close>

theorem rows_to_features:
  "ctype (convertExcelToGeoJSON fmt parse data) = ''FeatureCollection''
   \<and> map fproperties (features (convertExcelToGeoJSON fmt parse data)) =
       filter (\<lambda>row. truthy (getProp row ''LONGITUDE'') \<and> truthy (getProp row ''LATITUDE''))
         data
   \<and> (\<forall>f \<in> set (features (convertExcelToGeoJSON fmt parse data)).
        ftype f = ''Feature'' \<and> ptype (fgeometry f) = ''Point''
        \<and> (\<exists>lon lat. coordinates (fgeometry f) = [lon, lat]
             \<and> (\<forall>k c. (k = ''LONGITUDE'' \<and> c = lon) \<or> (k = ''LATITUDE'' \<and> c = lat) \<longrightarrow>
                  ((\<exists>s. getProp (fproperties f) k = Str s \<and> s \<noteq> [])
                   \<or> (\<exists>x. getProp (fproperties f) k = Num x \<and> x \<noteq> Fin 0 \<and> x \<noteq> NaN)
                   \<or> getProp (fproperties f) k = Bool True)
                  \<and> (\<forall>s. getProp (fproperties f) k = Str s \<longrightarrow>
                        c = parse (replaceFirst (CHR '','') (CHR ''.'') s))
                  \<and> (\<forall>x. getProp (fproperties f) k = Num x \<longrightarrow>
                        c = parse (replaceFirst (CHR '','') (CHR ''.'') (fmt x)))
                  \<and> (getProp (fproperties f) k = Bool True \<longrightarrow> c = parse ''true''))))
   \<and> (map_of row ''LONGITUDE'' \<in> {None, Some Undefined, Some Null, Some (Bool False),
                                     Some (Num (Fin 0)), Some (Num NaN), Some (Str [])}
        \<or> map_of row ''LATITUDE'' \<in> {None, Some Undefined, Some Null, Some (Bool False),
                                       Some (Num (Fin 0)), Some (Num NaN), Some (Str [])}
        \<longrightarrow> features (convertExcelToGeoJSON fmt parse [row]) = [])
   \<and> (CHR '','' \<notin> set pre \<longrightarrow>
        replaceFirst (CHR '','') (CHR ''.'') (pre @ CHR '','' # post) = pre @ CHR ''.'' # post)
   \<and> (CHR '','' \<notin> set s \<longrightarrow> replaceFirst (CHR '','') (CHR ''.'') s = s)"
proof (intro conjI ballI impI)
  show "ctype (convertExcelToGeoJSON fmt parse data) = ''FeatureCollection''"
    by (simp add: convertExcelToGeoJSON_def)
  show "map fproperties (features (convertExcelToGeoJSON fmt parse data)) =
       filter (\<lambda>row. truthy (getProp row ''LONGITUDE'') \<and> truthy (getProp row ''LATITUDE''))
         data"
    by (simp add: convertExcelToGeoJSON_def truthy_js_and comp_def)
next
  fix f assume f: "f \<in> set (features (convertExcelToGeoJSON fmt parse data))"
  then obtain row where row: "truthy (getProp row ''LONGITUDE'')"
      "truthy (getProp row ''LATITUDE'')"
    and feat: "f = \<lparr> ftype = ''Feature'',
        fgeometry = \<lparr> ptype = ''Point'',
          coordinates = [toCoordinate fmt parse (getProp row ''LONGITUDE''),
                         toCoordinate fmt parse (getProp row ''LATITUDE'')] \<rparr>,
        fproperties = row \<rparr>"
    by (auto simp: convertExcelToGeoJSON_def truthy_js_and)
  show "ftype f = ''Feature''" and "ptype (fgeometry f) = ''Point''"
    by (simp_all add: feat)
  have tn: "truthy_num x \<longleftrightarrow> x \<noteq> Fin 0 \<and> x \<noteq> NaN" for x
    by (cases x) simp_all
  have cell: "((\<exists>s. v = Str s \<and> s \<noteq> []) \<or> (\<exists>x. v = Num x \<and> x \<noteq> Fin 0 \<and> x \<noteq> NaN)
        \<or> v = Bool True)
      \<and> (\<forall>s. v = Str s \<longrightarrow> toCoordinate fmt parse v = parse (replaceFirst (CHR '','') (CHR ''.'') s))
      \<and> (\<forall>x. v = Num x \<longrightarrow>
            toCoordinate fmt parse v = parse (replaceFirst (CHR '','') (CHR ''.'') (fmt x)))
      \<and> (v = Bool True \<longrightarrow> toCoordinate fmt parse v = parse ''true'')"
    if "truthy v" for v
    using that by (cases v) (simp_all add: toCoordinate_def tn)
  show "\<exists>lon lat. coordinates (fgeometry f) = [lon, lat]
             \<and> (\<forall>k c. (k = ''LONGITUDE'' \<and> c = lon) \<or> (k = ''LATITUDE'' \<and> c = lat) \<longrightarrow>
                  ((\<exists>s. getProp (fproperties f) k = Str s \<and> s \<noteq> [])
                   \<or> (\<exists>x. getProp (fproperties f) k = Num x \<and> x \<noteq> Fin 0 \<and> x \<noteq> NaN)
                   \<or> getProp (fproperties f) k = Bool True)
                  \<and> (\<forall>s. getProp (fproperties f) k = Str s \<longrightarrow>
                        c = parse (replaceFirst (CHR '','') (CHR ''.'') s))
                  \<and> (\<forall>x. getProp (fproperties f) k = Num x \<longrightarrow>
                        c = parse (replaceFirst (CHR '','') (CHR ''.'') (fmt x)))
                  \<and> (getProp (fproperties f) k = Bool True \<longrightarrow> c = parse ''true''))"
  proof (intro exI conjI allI impI)
    show "coordinates (fgeometry f) =
        [toCoordinate fmt parse (getProp row ''LONGITUDE''),
         toCoordinate fmt parse (getProp row ''LATITUDE'')]"
      by (simp add: feat)
  next
    fix k c
    assume "(k = ''LONGITUDE'' \<and> c = toCoordinate fmt parse (getProp row ''LONGITUDE''))
          \<or> (k = ''LATITUDE'' \<and> c = toCoordinate fmt parse (getProp row ''LATITUDE''))"
    then have kc: "c = toCoordinate fmt parse (getProp (fproperties f) k)"
      and tr: "truthy (getProp (fproperties f) k)"
      using row by (auto simp: feat)
    from cell[OF tr] kc
    show "(\<exists>s. getProp (fproperties f) k = Str s \<and> s \<noteq> [])
                   \<or> (\<exists>x. getProp (fproperties f) k = Num x \<and> x \<noteq> Fin 0 \<and> x \<noteq> NaN)
                   \<or> getProp (fproperties f) k = Bool True"
      and "\<And>s. getProp (fproperties f) k = Str s \<Longrightarrow>
                        c = parse (replaceFirst (CHR '','') (CHR ''.'') s)"
      and "\<And>x. getProp (fproperties f) k = Num x \<Longrightarrow>
                        c = parse (replaceFirst (CHR '','') (CHR ''.'') (fmt x))"
      and "getProp (fproperties f) k = Bool True \<Longrightarrow> c = parse ''true''"
      by simp_all
  qed
next
  assume "map_of row ''LONGITUDE'' \<in> {None, Some Undefined, Some Null, Some (Bool False),
                                     Some (Num (Fin 0)), Some (Num NaN), Some (Str [])}
        \<or> map_of row ''LATITUDE'' \<in> {None, Some Undefined, Some Null, Some (Bool False),
                                       Some (Num (Fin 0)), Some (Num NaN), Some (Str [])}"
  then have "\<not> truthy (getProp row ''LONGITUDE'') \<or> \<not> truthy (getProp row ''LATITUDE'')"
    by (auto simp: getProp_def)
  then show "features (convertExcelToGeoJSON fmt parse [row]) = []"
    by (auto simp: convertExcelToGeoJSON_def truthy_js_and)
next
  assume "CHR '','' \<notin> set pre"
  then show "replaceFirst (CHR '','') (CHR ''.'') (pre @ CHR '','' # post) = pre @ CHR ''.'' # post"
    by (rule replaceFirst_first)
next
  assume "CHR '','' \<notin> set s"
  then show "replaceFirst (CHR '','') (CHR ''.'') s = s"
    by (rule replaceFirst_absent)
qed

theorem rows_to_features_witness:
  "features (convertExcelToGeoJSON
     (\<lambda>n. if n = Fin 8.25 then ''8.25'' else if n = Fin 7.5 then ''7.5'' else ''0'')
     (\<lambda>s. if s = ''8.25'' then Fin 8.25 else if s = ''7.5'' then Fin 7.5
           else if s = [] then Fin 0 else NaN)
     [[(''LONGITUDE'', Str ''8,25''), (''LATITUDE'', Num (Fin 7.5)), (''TITLE'', Str ''a'')],
      [(''LONGITUDE'', Num (Fin 0)), (''LATITUDE'', Num (Fin 7.5))],
      [(''LONGITUDE'', Str ''8,25''), (''LATITUDE'', Str [])],
      [(''LATITUDE'', Num (Fin 7.5))],
      [(''LONGITUDE'', Num (Fin 8.25)), (''LATITUDE'', Str ''7,5'')]])
   = [\<lparr> ftype = ''Feature'',
        fgeometry = \<lparr> ptype = ''Point'', coordinates = [Fin 8.25, Fin 7.5] \<rparr>,
        fproperties = [(''LONGITUDE'', Str ''8,25''), (''LATITUDE'', Num (Fin 7.5)),
                       (''TITLE'', Str ''a'')] \<rparr>,
      \<lparr> ftype = ''Feature'',
        fgeometry = \<lparr> ptype = ''Point'', coordinates = [Fin 8.25, Fin 7.5] \<rparr>,
        fproperties = [(''LONGITUDE'', Num (Fin 8.25)), (''LATITUDE'', Str ''7,5'')] \<rparr>]"
proof -
  define fmt :: "jsnum \<Rightarrow> string"
    where "fmt = (\<lambda>n. if n = Fin 8.25 then ''8.25'' else if n = Fin 7.5 then ''7.5'' else ''0'')"
  define parse :: "string \<Rightarrow> jsnum"
    where "parse = (\<lambda>s. if s = ''8.25'' then Fin 8.25 else if s = ''7.5'' then Fin 7.5
           else if s = [] then Fin 0 else NaN)"
  have vals: "fmt (Fin 7.5) = ''7.5''" "fmt (Fin 8.25) = ''8.25''"
    "parse ''8.25'' = Fin 8.25" "parse ''7.5'' = Fin 7.5"
    by (simp_all add: fmt_def parse_def)
  let ?r1 = "[(''LONGITUDE'', Str ''8,25''), (''LATITUDE'', Num (Fin 7.5)), (''TITLE'', Str ''a'')]"
  let ?r5 = "[(''LONGITUDE'', Num (Fin 8.25)), (''LATITUDE'', Str ''7,5'')]"
  let ?data = "[?r1,
      [(''LONGITUDE'', Num (Fin 0)), (''LATITUDE'', Num (Fin 7.5))],
      [(''LONGITUDE'', Str ''8,25''), (''LATITUDE'', Str [])],
      [(''LATITUDE'', Num (Fin 7.5))],
      ?r5]"
  let ?fs = "features (convertExcelToGeoJSON fmt parse ?data)"
  note w = rows_to_features[of fmt parse ?data "[]" "''8''" "''25''" "''7.5''"]
  have props: "map fproperties ?fs = [?r1, ?r5]"
    using w[THEN conjunct2, THEN conjunct1] by (simp add: getProp_def)
  then obtain f1 f2 where fs: "?fs = [f1, f2]"
    and p1: "fproperties f1 = ?r1" and p2: "fproperties f2 = ?r5"
    by auto
  note each = w[THEN conjunct2, THEN conjunct2, THEN conjunct1, rule_format]
  have g1: "getProp ?r1 ''LONGITUDE'' = Str ''8,25''" "getProp ?r1 ''LATITUDE'' = Num (Fin 7.5)"
    and g5: "getProp ?r5 ''LONGITUDE'' = Num (Fin 8.25)" "getProp ?r5 ''LATITUDE'' = Str ''7,5''"
    by (simp_all add: getProp_def)
  have f1in: "f1 \<in> set ?fs" and f2in: "f2 \<in> set ?fs" by (simp_all only: fs) simp_all
  from each[OF f1in] have t1: "ftype f1 = ''Feature''" "ptype (fgeometry f1) = ''Point''"
    by simp_all
  from each[OF f1in, THEN conjunct2, THEN conjunct2]
  obtain lon lat where c1: "coordinates (fgeometry f1) = [lon, lat]"
    and lo: "\<forall>s. getProp (fproperties f1) ''LONGITUDE'' = Str s \<longrightarrow>
                        lon = parse (replaceFirst (CHR '','') (CHR ''.'') s)"
    and la: "\<forall>x. getProp (fproperties f1) ''LATITUDE'' = Num x \<longrightarrow>
                        lat = parse (replaceFirst (CHR '','') (CHR ''.'') (fmt x))"
    by (rule coordinate_cases) simp
  from lo la p1 g1 vals have "lon = Fin 8.25" "lat = Fin 7.5"
    by simp_all
  with t1 c1 p1 have e1: "f1 = \<lparr> ftype = ''Feature'',
        fgeometry = \<lparr> ptype = ''Point'', coordinates = [Fin 8.25, Fin 7.5] \<rparr>,
        fproperties = ?r1 \<rparr>"
    by (cases f1, cases "fgeometry f1") simp
  from each[OF f2in] have t2: "ftype f2 = ''Feature''" "ptype (fgeometry f2) = ''Point''"
    by simp_all
  from each[OF f2in, THEN conjunct2, THEN conjunct2]
  obtain lon2 lat2 where c2: "coordinates (fgeometry f2) = [lon2, lat2]"
    and lo2: "\<forall>x. getProp (fproperties f2) ''LONGITUDE'' = Num x \<longrightarrow>
                        lon2 = parse (replaceFirst (CHR '','') (CHR ''.'') (fmt x))"
    and la2: "\<forall>s. getProp (fproperties f2) ''LATITUDE'' = Str s \<longrightarrow>
                        lat2 = parse (replaceFirst (CHR '','') (CHR ''.'') s)"
    by (rule coordinate_cases) simp
  from lo2 la2 p2 g5 vals have "lon2 = Fin 8.25" "lat2 = Fin 7.5"
    by simp_all
  with t2 c2 p2 have e2: "f2 = \<lparr> ftype = ''Feature'',
        fgeometry = \<lparr> ptype = ''Point'', coordinates = [Fin 8.25, Fin 7.5] \<rparr>,
        fproperties = ?r5 \<rparr>"
    by (cases f2, cases "fgeometry f2") simp
  from fs e1 e2 have "?fs = [\<lparr> ftype = ''Feature'',
        fgeometry = \<lparr> ptype = ''Point'', coordinates = [Fin 8.25, Fin 7.5] \<rparr>,
        fproperties = ?r1 \<rparr>,
      \<lparr> ftype = ''Feature'',
        fgeometry = \<lparr> ptype = ''Point'', coordinates = [Fin 8.25, Fin 7.5] \<rparr>,
        fproperties = ?r5 \<rparr>]"
    by simp
  then show ?thesis unfolding fmt_def parse_def .
qed

end
